theory Spec2Isabelle
  imports Complex_Main
begin

section \<open>Values, locations and validation errors\<close>

text \<open>
  The module \<^verbatim>\<open>schemas.py\<close> declares five pydantic models. Constructing a model from
  a document runs one validator per declared field and either returns the record or
  raises a single \<^verbatim>\<open>ValidationError\<close> that lists every failing field. The embedding
  gives each declaration its meaning as a function from documents to
  \<open>ValidationError + record\<close>.

  The meaning is that of pydantic 2 in its default (lax) mode, with the default
  model configuration: keys of the document that the model does not declare are ignored,
  defaults are not validated, a \<^verbatim>\<open>str\<close> field takes only a string.

  A Python \<^verbatim>\<open>str\<close> is a sequence of code points and \<^verbatim>\<open>min_length\<close>/\<^verbatim>\<open>max_length\<close>
  count code points, so a string value is a list of code points. Field names are
  Python identifiers and are kept as \<open>string\<close>.
\<close>

type_synonym pystr = "nat list"

definition str :: "string \<Rightarrow> pystr" where
  "str s = map of_char s"

datatype datetime = Datetime (timestamp_us: int) (utcoffset: "int option")

text \<open>
  A \<^verbatim>\<open>float\<close> is modelled by the real number it denotes: the comparisons with the
  bounds 0 and 100 are exact on floats. Rounding, overflow, NaN and the infinities
  are outside the model.
\<close>

datatype pyval =
    VNone
  | VBool bool
  | VInt int
  | VFloat real
  | VStr pystr
  | VDatetime datetime
  | VList "pyval list"
  | VDict "(pystr \<times> pyval) list"

type_synonym doc = "string \<rightharpoonup> pyval"

datatype loc_item = FieldName string | Key pystr | Index nat

datatype error_type =
    Missing
  | String_type
  | String_too_short nat
  | String_too_long nat
  | Literal_error
  | Float_type
  | Greater_than_equal real
  | Less_than_equal real
  | Bool_type
  | Value_error
  | Url_type
  | Url_parsing
  | Datetime_type
  | List_type
  | Dict_type

type_synonym ValidationError = "(loc_item list \<times> error_type) list"

text \<open>
  The types \<^verbatim>\<open>EmailStr\<close> and \<^verbatim>\<open>HttpUrl\<close> and the lax-mode conversions of the
  validation library are imported, not defined, by the module. They are parameters of
  the model: \<open>EmailStr\<close> and \<open>HttpUrl\<close> map a string to its normalised form or reject
  it; \<open>lax_float\<close>, \<open>lax_bool\<close> and \<open>lax_datetime\<close> say which values of another kind
  the library converts (such as the string \<^verbatim>\<open>"1.5"\<close> for a float).
\<close>

record lib =
  EmailStr :: "pystr \<Rightarrow> pystr option"
  HttpUrl :: "pystr \<Rightarrow> pystr option"
  lax_float :: "pyval \<Rightarrow> real option"
  lax_bool :: "pyval \<Rightarrow> bool option"
  lax_datetime :: "pyval \<Rightarrow> datetime option"


section \<open>Field validators\<close>

fun as_str :: "pyval \<Rightarrow> pystr option" where
  "as_str (VStr s) = Some s"
| "as_str _ = None"

fun as_float :: "lib \<Rightarrow> pyval \<Rightarrow> real option" where
  "as_float L (VFloat x) = Some x"
| "as_float L (VInt i) = Some (of_int i)"
| "as_float L v = lax_float L v"

fun as_bool :: "lib \<Rightarrow> pyval \<Rightarrow> bool option" where
  "as_bool L (VBool b) = Some b"
| "as_bool L v = lax_bool L v"

fun as_datetime :: "lib \<Rightarrow> pyval \<Rightarrow> datetime option" where
  "as_datetime L (VDatetime t) = Some t"
| "as_datetime L v = lax_datetime L v"

fun as_list :: "pyval \<Rightarrow> pyval list option" where
  "as_list (VList vs) = Some vs"
| "as_list _ = None"

fun as_dict :: "pyval \<Rightarrow> (pystr \<times> pyval) list option" where
  "as_dict (VDict kvs) = Some kvs"
| "as_dict _ = None"

definition fail :: "error_type \<Rightarrow> ValidationError + 'a" where
  "fail t = Inl [([], t)]"

text \<open>\<^verbatim>\<open>str\<close>, with the \<^verbatim>\<open>min_length\<close> and \<^verbatim>\<open>max_length\<close> of \<^verbatim>\<open>Field\<close>.\<close>

definition str_schema :: "nat option \<Rightarrow> nat option \<Rightarrow> pyval \<Rightarrow> ValidationError + pystr" where
  "str_schema min_length max_length v =
     (case as_str v of
        None \<Rightarrow> fail String_type
      | Some s \<Rightarrow>
          (case min_length of
             Some n \<Rightarrow> if length s < n then fail (String_too_short n)
                       else (case max_length of
                               Some m \<Rightarrow> if m < length s then fail (String_too_long m) else Inr s
                             | None \<Rightarrow> Inr s)
           | None \<Rightarrow> (case max_length of
                        Some m \<Rightarrow> if m < length s then fail (String_too_long m) else Inr s
                      | None \<Rightarrow> Inr s)))"

text \<open>\<^verbatim>\<open>Literal[...]\<close>: the value must be one of the listed strings.\<close>

definition literal_schema :: "pystr list \<Rightarrow> pyval \<Rightarrow> ValidationError + pystr" where
  "literal_schema expected v =
     (case as_str v of
        None \<Rightarrow> fail Literal_error
      | Some s \<Rightarrow> if s \<in> set expected then Inr s else fail Literal_error)"

text \<open>\<^verbatim>\<open>float\<close>, with the \<^verbatim>\<open>ge\<close> and \<^verbatim>\<open>le\<close> of \<^verbatim>\<open>Field\<close>.\<close>

definition float_schema :: "lib \<Rightarrow> real option \<Rightarrow> real option \<Rightarrow> pyval \<Rightarrow> ValidationError + real" where
  "float_schema L ge le v =
     (case as_float L v of
        None \<Rightarrow> fail Float_type
      | Some x \<Rightarrow>
          (case le of
             Some b \<Rightarrow> if b < x then fail (Less_than_equal b)
                       else (case ge of
                               Some a \<Rightarrow> if x < a then fail (Greater_than_equal a) else Inr x
                             | None \<Rightarrow> Inr x)
           | None \<Rightarrow> (case ge of
                        Some a \<Rightarrow> if x < a then fail (Greater_than_equal a) else Inr x
                      | None \<Rightarrow> Inr x)))"

definition bool_schema :: "lib \<Rightarrow> pyval \<Rightarrow> ValidationError + bool" where
  "bool_schema L v = (case as_bool L v of None \<Rightarrow> fail Bool_type | Some b \<Rightarrow> Inr b)"

definition datetime_schema :: "lib \<Rightarrow> pyval \<Rightarrow> ValidationError + datetime" where
  "datetime_schema L v =
     (case as_datetime L v of None \<Rightarrow> fail Datetime_type | Some t \<Rightarrow> Inr t)"

definition email_schema :: "lib \<Rightarrow> pyval \<Rightarrow> ValidationError + pystr" where
  "email_schema L v =
     (case as_str v of
        None \<Rightarrow> fail String_type
      | Some s \<Rightarrow> (case EmailStr L s of None \<Rightarrow> fail Value_error | Some e \<Rightarrow> Inr e))"

definition url_schema :: "lib \<Rightarrow> pyval \<Rightarrow> ValidationError + pystr" where
  "url_schema L v =
     (case as_str v of
        None \<Rightarrow> fail Url_type
      | Some s \<Rightarrow> (case HttpUrl L s of None \<Rightarrow> fail Url_parsing | Some u \<Rightarrow> Inr u))"

text \<open>\<^verbatim>\<open>Optional[T]\<close>: \<^verbatim>\<open>None\<close> is accepted as it is, any other value goes to \<open>T\<close>.\<close>

definition nullable_schema ::
  "(pyval \<Rightarrow> ValidationError + 'a) \<Rightarrow> pyval \<Rightarrow> ValidationError + 'a option" where
  "nullable_schema val v = (if v = VNone then Inr None else map_sum id Some (val v))"

text \<open>
  Errors are collected, not raised one at a time: \<open>ap\<close> applies a function that may
  have failed to an argument that may have failed and keeps the errors of both.
\<close>

definition ap :: "ValidationError + ('a \<Rightarrow> 'b) \<Rightarrow> ValidationError + 'a \<Rightarrow> ValidationError + 'b" where
  "ap f x =
     (case f of
        Inr g \<Rightarrow> (case x of Inr a \<Rightarrow> Inr (g a) | Inl e \<Rightarrow> Inl e)
      | Inl e1 \<Rightarrow> (case x of Inr a \<Rightarrow> Inl e1 | Inl e2 \<Rightarrow> Inl (e1 @ e2)))"

definition at_loc :: "loc_item \<Rightarrow> ValidationError + 'a \<Rightarrow> ValidationError + 'a" where
  "at_loc i r = map_sum (map (\<lambda>(loc, t). (i # loc, t))) id r"

text \<open>\<^verbatim>\<open>List[T]\<close> and \<^verbatim>\<open>Dict[str, T]\<close>: every item is validated, at its index or key.\<close>

fun list_items ::
  "(pyval \<Rightarrow> ValidationError + 'a) \<Rightarrow> nat \<Rightarrow> pyval list \<Rightarrow> ValidationError + 'a list" where
  "list_items val i [] = Inr []"
| "list_items val i (v # vs) =
     ap (ap (Inr (\<lambda>a as. a # as)) (at_loc (Index i) (val v))) (list_items val (Suc i) vs)"

definition list_schema ::
  "(pyval \<Rightarrow> ValidationError + 'a) \<Rightarrow> pyval \<Rightarrow> ValidationError + 'a list" where
  "list_schema val v = (case as_list v of None \<Rightarrow> fail List_type | Some vs \<Rightarrow> list_items val 0 vs)"

fun dict_items ::
  "(pyval \<Rightarrow> ValidationError + 'a) \<Rightarrow> (pystr \<times> pyval) list \<Rightarrow> ValidationError + (pystr \<times> 'a) list" where
  "dict_items val [] = Inr []"
| "dict_items val ((k, v) # kvs) =
     ap (ap (Inr (\<lambda>a as. (k, a) # as)) (at_loc (Key k) (val v))) (dict_items val kvs)"

definition dict_schema ::
  "(pyval \<Rightarrow> ValidationError + 'a) \<Rightarrow> pyval \<Rightarrow> ValidationError + (pystr \<times> 'a) list" where
  "dict_schema val v = (case as_dict v of None \<Rightarrow> fail Dict_type | Some kvs \<Rightarrow> dict_items val kvs)"

text \<open>
  A field declared with \<^verbatim>\<open>Field(...)\<close> or with no default is required; a field with a
  default takes it when the document has no such key. Defaults are not validated.
\<close>

definition required :: "doc \<Rightarrow> string \<Rightarrow> (pyval \<Rightarrow> ValidationError + 'a) \<Rightarrow> ValidationError + 'a" where
  "required d k val =
     (case d k of None \<Rightarrow> Inl [([FieldName k], Missing)] | Some v \<Rightarrow> at_loc (FieldName k) (val v))"

definition with_default ::
  "doc \<Rightarrow> string \<Rightarrow> 'a \<Rightarrow> (pyval \<Rightarrow> ValidationError + 'a) \<Rightarrow> ValidationError + 'a" where
  "with_default d k dflt val =
     (case d k of None \<Rightarrow> Inr dflt | Some v \<Rightarrow> at_loc (FieldName k) (val v))"


section \<open>The models\<close>

text \<open>
  Each model is a record, one definition per declared field in the order of the source,
  and the construction that runs them all and collects their errors.
\<close>


subsection \<open>User\<close>

text \<open>Users collection schema; \<open>role\<close> supports RBAC: \<^verbatim>\<open>"user"\<close> or \<^verbatim>\<open>"admin"\<close>.\<close>

record User =
  name :: pystr
  email :: pystr
  hashed_password :: pystr
  role :: pystr
  avatar_url :: "pystr option"
  is_active :: bool

definition User_name_field :: "doc \<Rightarrow> ValidationError + pystr" where
  "User_name_field d =
     required d ''name'' (str_schema (Some 2) (Some 120))"

definition User_email_field :: "lib \<Rightarrow> doc \<Rightarrow> ValidationError + pystr" where
  "User_email_field L d =
     required d ''email'' (email_schema L)"

definition User_hashed_password_field :: "doc \<Rightarrow> ValidationError + pystr" where
  "User_hashed_password_field d =
     required d ''hashed_password'' (str_schema (Some 60) (Some 200))"

definition User_role_field :: "doc \<Rightarrow> ValidationError + pystr" where
  "User_role_field d =
     with_default d ''role'' (str ''user'') (literal_schema [str ''user'', str ''admin''])"

definition User_avatar_url_field :: "lib \<Rightarrow> doc \<Rightarrow> ValidationError + (pystr option)" where
  "User_avatar_url_field L d =
     with_default d ''avatar_url'' None (nullable_schema (url_schema L))"

definition User_is_active_field :: "lib \<Rightarrow> doc \<Rightarrow> ValidationError + bool" where
  "User_is_active_field L d =
     with_default d ''is_active'' True (bool_schema L)"

definition User_model_validate :: "lib \<Rightarrow> doc \<Rightarrow> ValidationError + User" where
  "User_model_validate L d =
     ap (ap (ap (ap (ap (ap
       (Inr (\<lambda>x1 x2 x3 x4 x5 x6.
               \<lparr>name = x1, email = x2, hashed_password = x3, role = x4, avatar_url = x5,
                is_active = x6\<rparr>))
       (User_name_field d))
       (User_email_field L d))
       (User_hashed_password_field d))
       (User_role_field d))
       (User_avatar_url_field L d))
       (User_is_active_field L d)"


subsection \<open>Ebook\<close>

text \<open>Ebooks available for purchase and reading.\<close>

record Ebook =
  title :: pystr
  author :: pystr
  description :: "pystr option"
  price :: real
  currency :: pystr
  cover_url :: "pystr option"
  file_urls :: "(pystr \<times> pystr) list"
  categories :: "pystr list"
  published :: bool
  created_by :: "pystr option"

definition Ebook_title_field :: "doc \<Rightarrow> ValidationError + pystr" where
  "Ebook_title_field d =
     required d ''title'' (str_schema (Some 1) (Some 200))"

definition Ebook_author_field :: "doc \<Rightarrow> ValidationError + pystr" where
  "Ebook_author_field d =
     required d ''author'' (str_schema (Some 1) (Some 120))"

definition Ebook_description_field :: "doc \<Rightarrow> ValidationError + (pystr option)" where
  "Ebook_description_field d =
     with_default d ''description'' None (nullable_schema (str_schema None (Some 5000)))"

definition Ebook_price_field :: "lib \<Rightarrow> doc \<Rightarrow> ValidationError + real" where
  "Ebook_price_field L d =
     required d ''price'' (float_schema L (Some 0) None)"

definition Ebook_currency_field :: "doc \<Rightarrow> ValidationError + pystr" where
  "Ebook_currency_field d =
     with_default d ''currency'' (str ''INR'') (literal_schema [str ''INR'', str ''USD''])"

definition Ebook_cover_url_field :: "lib \<Rightarrow> doc \<Rightarrow> ValidationError + (pystr option)" where
  "Ebook_cover_url_field L d =
     with_default d ''cover_url'' None (nullable_schema (url_schema L))"

definition Ebook_file_urls_field :: "lib \<Rightarrow> doc \<Rightarrow> ValidationError + ((pystr \<times> pystr) list)" where
  "Ebook_file_urls_field L d =
     with_default d ''file_urls'' [] (dict_schema (url_schema L))"

definition Ebook_categories_field :: "doc \<Rightarrow> ValidationError + (pystr list)" where
  "Ebook_categories_field d =
     with_default d ''categories'' [] (list_schema (str_schema None None))"

definition Ebook_published_field :: "lib \<Rightarrow> doc \<Rightarrow> ValidationError + bool" where
  "Ebook_published_field L d =
     with_default d ''published'' True (bool_schema L)"

definition Ebook_created_by_field :: "doc \<Rightarrow> ValidationError + (pystr option)" where
  "Ebook_created_by_field d =
     with_default d ''created_by'' None (nullable_schema (str_schema None None))"

definition Ebook_model_validate :: "lib \<Rightarrow> doc \<Rightarrow> ValidationError + Ebook" where
  "Ebook_model_validate L d =
     ap (ap (ap (ap (ap (ap (ap (ap (ap (ap
       (Inr (\<lambda>x1 x2 x3 x4 x5 x6 x7 x8 x9 x10.
               \<lparr>title = x1, author = x2, description = x3, price = x4, currency = x5,
                cover_url = x6, file_urls = x7, categories = x8, published =
                x9, created_by = x10\<rparr>))
       (Ebook_title_field d))
       (Ebook_author_field d))
       (Ebook_description_field d))
       (Ebook_price_field L d))
       (Ebook_currency_field d))
       (Ebook_cover_url_field L d))
       (Ebook_file_urls_field L d))
       (Ebook_categories_field d))
       (Ebook_published_field L d))
       (Ebook_created_by_field d)"


subsection \<open>Purchase\<close>

text \<open>Records of user purchases.\<close>

record Purchase =
  user_id :: pystr
  ebook_id :: pystr
  amount :: real
  currency :: pystr
  status :: pystr
  razorpay_order_id :: "pystr option"
  razorpay_payment_id :: "pystr option"
  razorpay_signature :: "pystr option"

definition Purchase_user_id_field :: "doc \<Rightarrow> ValidationError + pystr" where
  "Purchase_user_id_field d =
     required d ''user_id'' (str_schema None None)"

definition Purchase_ebook_id_field :: "doc \<Rightarrow> ValidationError + pystr" where
  "Purchase_ebook_id_field d =
     required d ''ebook_id'' (str_schema None None)"

definition Purchase_amount_field :: "lib \<Rightarrow> doc \<Rightarrow> ValidationError + real" where
  "Purchase_amount_field L d =
     required d ''amount'' (float_schema L (Some 0) None)"

definition Purchase_currency_field :: "doc \<Rightarrow> ValidationError + pystr" where
  "Purchase_currency_field d =
     with_default d ''currency'' (str ''INR'') (literal_schema [str ''INR'', str ''USD''])"

definition Purchase_status_field :: "doc \<Rightarrow> ValidationError + pystr" where
  "Purchase_status_field d =
     with_default d ''status'' (str ''created'')
       (literal_schema [str ''created'', str ''paid'', str ''failed'', str ''refunded''])"

definition Purchase_razorpay_order_id_field :: "doc \<Rightarrow> ValidationError + (pystr option)" where
  "Purchase_razorpay_order_id_field d =
     with_default d ''razorpay_order_id'' None (nullable_schema (str_schema None None))"

definition Purchase_razorpay_payment_id_field :: "doc \<Rightarrow> ValidationError + (pystr option)" where
  "Purchase_razorpay_payment_id_field d =
     with_default d ''razorpay_payment_id'' None (nullable_schema (str_schema None None))"

definition Purchase_razorpay_signature_field :: "doc \<Rightarrow> ValidationError + (pystr option)" where
  "Purchase_razorpay_signature_field d =
     with_default d ''razorpay_signature'' None (nullable_schema (str_schema None None))"

definition Purchase_model_validate :: "lib \<Rightarrow> doc \<Rightarrow> ValidationError + Purchase" where
  "Purchase_model_validate L d =
     ap (ap (ap (ap (ap (ap (ap (ap
       (Inr (\<lambda>x1 x2 x3 x4 x5 x6 x7 x8.
               \<lparr>user_id = x1, ebook_id = x2, amount = x3, currency = x4, status = x5,
                razorpay_order_id = x6, razorpay_payment_id = x7,
                razorpay_signature = x8\<rparr>))
       (Purchase_user_id_field d))
       (Purchase_ebook_id_field d))
       (Purchase_amount_field L d))
       (Purchase_currency_field d))
       (Purchase_status_field d))
       (Purchase_razorpay_order_id_field d))
       (Purchase_razorpay_payment_id_field d))
       (Purchase_razorpay_signature_field d)"


subsection \<open>LibraryItem\<close>

text \<open>A user's library entry linking to ebooks they own.\<close>

record LibraryItem =
  user_id :: pystr
  ebook_id :: pystr
  last_read_at :: "datetime option"
  progress :: real

definition LibraryItem_user_id_field :: "doc \<Rightarrow> ValidationError + pystr" where
  "LibraryItem_user_id_field d =
     required d ''user_id'' (str_schema None None)"

definition LibraryItem_ebook_id_field :: "doc \<Rightarrow> ValidationError + pystr" where
  "LibraryItem_ebook_id_field d =
     required d ''ebook_id'' (str_schema None None)"

definition LibraryItem_last_read_at_field :: "lib \<Rightarrow> doc \<Rightarrow> ValidationError + (datetime option)" where
  "LibraryItem_last_read_at_field L d =
     with_default d ''last_read_at'' None (nullable_schema (datetime_schema L))"

definition LibraryItem_progress_field :: "lib \<Rightarrow> doc \<Rightarrow> ValidationError + real" where
  "LibraryItem_progress_field L d =
     with_default d ''progress'' 0 (float_schema L (Some 0) (Some 100))"

definition LibraryItem_model_validate :: "lib \<Rightarrow> doc \<Rightarrow> ValidationError + LibraryItem" where
  "LibraryItem_model_validate L d =
     ap (ap (ap (ap
       (Inr (\<lambda>x1 x2 x3 x4.
               \<lparr>user_id = x1, ebook_id = x2, last_read_at = x3, progress = x4\<rparr>))
       (LibraryItem_user_id_field d))
       (LibraryItem_ebook_id_field d))
       (LibraryItem_last_read_at_field L d))
       (LibraryItem_progress_field L d)"


subsection \<open>SchemaInfo\<close>

text \<open>Helper for schema introspection: a name and an arbitrary \<^verbatim>\<open>dict\<close>.\<close>

record SchemaInfo =
  name :: pystr
  schema :: "(pystr \<times> pyval) list"

definition SchemaInfo_name_field :: "doc \<Rightarrow> ValidationError + pystr" where
  "SchemaInfo_name_field d =
     required d ''name'' (str_schema None None)"

definition SchemaInfo_schema_field :: "doc \<Rightarrow> ValidationError + ((pystr \<times> pyval) list)" where
  "SchemaInfo_schema_field d =
     required d ''schema'' (dict_schema Inr)"

definition SchemaInfo_model_validate :: "lib \<Rightarrow> doc \<Rightarrow> ValidationError + SchemaInfo" where
  "SchemaInfo_model_validate L d =
     ap (ap
       (Inr (\<lambda>x1 x2.
               \<lparr>name = x1, schema = x2\<rparr>))
       (SchemaInfo_name_field d))
       (SchemaInfo_schema_field d)"


section \<open>Serialisation\<close>







section \<open>Errors of a failed construction\<close>

text \<open>\<^verbatim>\<open>e.errors()\<close>: the line errors of a failure, and the field each one is located at.\<close>

definition errors :: "ValidationError + 'a \<Rightarrow> ValidationError" where
  "errors r = (case r of Inl es \<Rightarrow> es | Inr _ \<Rightarrow> [])"

fun error_field :: "loc_item list \<times> error_type \<Rightarrow> string option" where
  "error_field (FieldName k # _, _) = Some k"
| "error_field _ = None"

text \<open>A validator reports its failures: whenever it fails it gives at least one line error.\<close>

definition reports :: "(pyval \<Rightarrow> ValidationError + 'a) \<Rightarrow> bool" where
  "reports val \<longleftrightarrow> (\<forall>v. isl (val v) \<longrightarrow> errors (val v) \<noteq> [])"







section \<open>The declared constraints, on a record\<close>








section \<open>The data model of the specification, on a document\<close>



























section \<open>The imported types\<close>


text \<open>
  What a URL scheme and an \<^verbatim>\<open>@\<close> in a string are. A scheme is read as in RFC 3986: a
  letter followed by letters, digits, \<^verbatim>\<open>+\<close>, \<^verbatim>\<open>-\<close> or \<^verbatim>\<open>.\<close>, ended by the first colon
  (code point 58).
\<close>

definition is_alpha :: "nat \<Rightarrow> bool" where
  "is_alpha c \<longleftrightarrow> (65 \<le> c \<and> c \<le> 90) \<or> (97 \<le> c \<and> c \<le> 122)"

definition is_scheme_char :: "nat \<Rightarrow> bool" where
  "is_scheme_char c \<longleftrightarrow> is_alpha c \<or> (48 \<le> c \<and> c \<le> 57) \<or> c = 43 \<or> c = 45 \<or> c = 46"

definition url_scheme :: "pystr \<Rightarrow> pystr option" where
  "url_scheme s =
     (let p = takeWhile (\<lambda>c. c \<noteq> 58) s
      in if length p < length s \<and> p \<noteq> [] \<and> is_alpha (hd p) \<and> list_all is_scheme_char p
         then Some p else None)"

definition has_at :: "pystr \<Rightarrow> bool" where
  "has_at s \<longleftrightarrow> of_char CHR ''@'' \<in> set s"

text \<open>
  Modelled from the spec: \<^verbatim>\<open>EmailStr\<close> and \<^verbatim>\<open>HttpUrl\<close> are types of the validation
  library and are not among the sources. The specification says of them that an email
  value without an \<^verbatim>\<open>@\<close> fails validation and that a URL value without a scheme
  fails validation.
\<close>

definition lib_rejects_malformed :: "lib \<Rightarrow> bool" where
  "lib_rejects_malformed L \<longleftrightarrow>
     (\<forall>s. \<not> has_at s \<longrightarrow> EmailStr L s = None) \<and>
     (\<forall>s. url_scheme s = None \<longrightarrow> HttpUrl L s = None)"

text \<open>
  Modelled from the spec: one library that meets these two sentences, for evaluating
  the models on concrete documents. It accepts a string with an \<^verbatim>\<open>@\<close> as an email
  address and a string with the scheme \<^verbatim>\<open>http\<close> or \<^verbatim>\<open>https\<close> as a URL, returns
  both unchanged, and converts nothing in lax mode.
\<close>

definition plain_lib :: lib where
  "plain_lib =
     \<lparr>EmailStr = (\<lambda>s. if has_at s then Some s else None),
      HttpUrl = (\<lambda>s. if url_scheme s = Some (str ''http'') \<or> url_scheme s = Some (str ''https'')
                      then Some s else None),
      lax_float = (\<lambda>v. None),
      lax_bool = (\<lambda>v. None),
      lax_datetime = (\<lambda>v. None)\<rparr>"


section \<open>Example documents\<close>

text \<open>The two example inputs of the specification, and one each for the other models.\<close>

definition ada_doc :: doc where
  "ada_doc =
     [''name'' \<mapsto> VStr (str ''Ada''),
      ''email'' \<mapsto> VStr (str ''ada@x.com''),
      ''hashed_password'' \<mapsto> VStr (replicate 60 (of_char CHR ''x''))]"

definition purchase_doc :: doc where
  "purchase_doc =
     [''user_id'' \<mapsto> VStr (str ''u1''),
      ''ebook_id'' \<mapsto> VStr (str ''e1''),
      ''amount'' \<mapsto> VFloat 199]"

definition ebook_doc :: doc where
  "ebook_doc =
     [''title'' \<mapsto> VStr (str ''Dune''),
      ''author'' \<mapsto> VStr (str ''Frank Herbert''),
      ''price'' \<mapsto> VFloat 499]"

definition library_doc :: doc where
  "library_doc =
     [''user_id'' \<mapsto> VStr (str ''u1''),
      ''ebook_id'' \<mapsto> VStr (str ''e1'')]"


section \<open>Properties of the validators\<close>

subsection \<open>Collecting errors\<close>


lemma ap_Inr_Inr: "ap (Inr g) (Inr a) = Inr (g a)"
  by (simp add: ap_def)

lemma errors_Inr: "errors (Inr a) = []"
  by (simp add: errors_def)

lemma errors_Inl: "errors (Inl es) = es"
  by (simp add: errors_def)

lemma errors_ap: "errors (ap f x) = errors f @ errors x"
  by (simp add: ap_def errors_def split: sum.splits)

lemma isl_ap: "isl (ap f x) \<longleftrightarrow> isl f \<or> isl x"
  by (simp add: ap_def split: sum.splits)

lemma Inl_iff_errors: "r = Inl es \<longleftrightarrow> isl r \<and> errors r = es"
  by (cases r) (auto simp: errors_def)



lemma isl_at_loc: "isl (at_loc i r) \<longleftrightarrow> isl r"
  by (cases r) (auto simp: at_loc_def)

lemma errors_at_loc: "errors (at_loc i r) = map (\<lambda>(loc, t). (i # loc, t)) (errors r)"
  by (cases r) (auto simp: at_loc_def errors_def)

lemma errors_fail: "errors (fail t) = [([], t)]"
  by (simp add: fail_def errors_def)

lemma isl_fail: "isl (fail t)"
  by (simp add: fail_def)

subsection \<open>Required and defaulted fields\<close>



lemma isl_required: "isl (required d k val) \<longleftrightarrow> (case d k of None \<Rightarrow> True | Some v \<Rightarrow> isl (val v))"
  by (simp add: required_def isl_at_loc split: option.splits)

lemma isl_with_default:
  "isl (with_default d k dflt val) \<longleftrightarrow> (case d k of None \<Rightarrow> False | Some v \<Rightarrow> isl (val v))"
  by (simp add: with_default_def isl_at_loc split: option.splits)

lemma errors_required:
  "errors (required d k val) =
     (case d k of None \<Rightarrow> [([FieldName k], Missing)]
      | Some v \<Rightarrow> map (\<lambda>(loc, t). (FieldName k # loc, t)) (errors (val v)))"
  by (simp add: required_def errors_at_loc errors_Inl split: option.splits)

lemma errors_with_default:
  "errors (with_default d k dflt val) =
     (case d k of None \<Rightarrow> []
      | Some v \<Rightarrow> map (\<lambda>(loc, t). (FieldName k # loc, t)) (errors (val v)))"
  by (simp add: with_default_def errors_at_loc errors_Inr split: option.splits)

lemma error_field_required:
  "e \<in> set (errors (required d k val)) \<Longrightarrow> error_field e = Some k"
  by (auto simp: errors_required split: option.splits)

lemma error_field_with_default:
  "e \<in> set (errors (with_default d k dflt val)) \<Longrightarrow> error_field e = Some k"
  by (auto simp: errors_with_default split: option.splits)

subsection \<open>What each validator accepts\<close>














lemma dict_items_Inr: "dict_items Inr kvs = Inr kvs"
  by (induction kvs) (auto simp: ap_def at_loc_def)

subsection \<open>The result of a construction, field by field\<close>

lemma result_eq_Inr_iff: "r = Inr a \<longleftrightarrow> \<not> isl r \<and> projr r = a"
  by (cases r) auto

lemma projr_ap: "\<not> isl f \<Longrightarrow> \<not> isl x \<Longrightarrow> projr (ap f x) = (projr f) (projr x)"
  by (cases f; cases x) (auto simp: ap_def)

lemma User_model_validate_Inr_iff:
  "User_model_validate L d = Inr u \<longleftrightarrow>
     User_name_field d = Inr (User.name u) \<and>
     User_email_field L d = Inr (email u) \<and>
     User_hashed_password_field d = Inr (hashed_password u) \<and>
     User_role_field d = Inr (role u) \<and>
     User_avatar_url_field L d = Inr (avatar_url u) \<and>
     User_is_active_field L d = Inr (is_active u)"
  unfolding User_model_validate_def result_eq_Inr_iff [of _ u]
  by (cases u) (auto simp: isl_ap projr_ap result_eq_Inr_iff)


lemma User_model_validate_errors:
  "errors (User_model_validate L d) =
     errors (User_name_field d) @
     errors (User_email_field L d) @
     errors (User_hashed_password_field d) @
     errors (User_role_field d) @
     errors (User_avatar_url_field L d) @
     errors (User_is_active_field L d)"
  by (simp add: User_model_validate_def errors_ap errors_Inr)

lemma Ebook_model_validate_Inr_iff:
  "Ebook_model_validate L d = Inr b \<longleftrightarrow>
     Ebook_title_field d = Inr (title b) \<and>
     Ebook_author_field d = Inr (author b) \<and>
     Ebook_description_field d = Inr (description b) \<and>
     Ebook_price_field L d = Inr (price b) \<and>
     Ebook_currency_field d = Inr (Ebook.currency b) \<and>
     Ebook_cover_url_field L d = Inr (cover_url b) \<and>
     Ebook_file_urls_field L d = Inr (file_urls b) \<and>
     Ebook_categories_field d = Inr (categories b) \<and>
     Ebook_published_field L d = Inr (published b) \<and>
     Ebook_created_by_field d = Inr (created_by b)"
  unfolding Ebook_model_validate_def result_eq_Inr_iff [of _ b]
  by (cases b) (auto simp: isl_ap projr_ap result_eq_Inr_iff)


lemma Ebook_model_validate_errors:
  "errors (Ebook_model_validate L d) =
     errors (Ebook_title_field d) @
     errors (Ebook_author_field d) @
     errors (Ebook_description_field d) @
     errors (Ebook_price_field L d) @
     errors (Ebook_currency_field d) @
     errors (Ebook_cover_url_field L d) @
     errors (Ebook_file_urls_field L d) @
     errors (Ebook_categories_field d) @
     errors (Ebook_published_field L d) @
     errors (Ebook_created_by_field d)"
  by (simp add: Ebook_model_validate_def errors_ap errors_Inr)

lemma Purchase_model_validate_Inr_iff:
  "Purchase_model_validate L d = Inr p \<longleftrightarrow>
     Purchase_user_id_field d = Inr (Purchase.user_id p) \<and>
     Purchase_ebook_id_field d = Inr (Purchase.ebook_id p) \<and>
     Purchase_amount_field L d = Inr (amount p) \<and>
     Purchase_currency_field d = Inr (Purchase.currency p) \<and>
     Purchase_status_field d = Inr (status p) \<and>
     Purchase_razorpay_order_id_field d = Inr (razorpay_order_id p) \<and>
     Purchase_razorpay_payment_id_field d = Inr (razorpay_payment_id p) \<and>
     Purchase_razorpay_signature_field d = Inr (razorpay_signature p)"
  unfolding Purchase_model_validate_def result_eq_Inr_iff [of _ p]
  by (cases p) (auto simp: isl_ap projr_ap result_eq_Inr_iff)


lemma Purchase_model_validate_errors:
  "errors (Purchase_model_validate L d) =
     errors (Purchase_user_id_field d) @
     errors (Purchase_ebook_id_field d) @
     errors (Purchase_amount_field L d) @
     errors (Purchase_currency_field d) @
     errors (Purchase_status_field d) @
     errors (Purchase_razorpay_order_id_field d) @
     errors (Purchase_razorpay_payment_id_field d) @
     errors (Purchase_razorpay_signature_field d)"
  by (simp add: Purchase_model_validate_def errors_ap errors_Inr)

lemma LibraryItem_model_validate_Inr_iff:
  "LibraryItem_model_validate L d = Inr i \<longleftrightarrow>
     LibraryItem_user_id_field d = Inr (LibraryItem.user_id i) \<and>
     LibraryItem_ebook_id_field d = Inr (LibraryItem.ebook_id i) \<and>
     LibraryItem_last_read_at_field L d = Inr (last_read_at i) \<and>
     LibraryItem_progress_field L d = Inr (progress i)"
  unfolding LibraryItem_model_validate_def result_eq_Inr_iff [of _ i]
  by (cases i) (auto simp: isl_ap projr_ap result_eq_Inr_iff)


lemma LibraryItem_model_validate_errors:
  "errors (LibraryItem_model_validate L d) =
     errors (LibraryItem_user_id_field d) @
     errors (LibraryItem_ebook_id_field d) @
     errors (LibraryItem_last_read_at_field L d) @
     errors (LibraryItem_progress_field L d)"
  by (simp add: LibraryItem_model_validate_def errors_ap errors_Inr)

lemma SchemaInfo_model_validate_Inr_iff:
  "SchemaInfo_model_validate L d = Inr s \<longleftrightarrow>
     SchemaInfo_name_field d = Inr (SchemaInfo.name s) \<and>
     SchemaInfo_schema_field d = Inr (schema s)"
  unfolding SchemaInfo_model_validate_def result_eq_Inr_iff [of _ s]
  by (cases s) (auto simp: isl_ap projr_ap result_eq_Inr_iff)

lemma SchemaInfo_model_validate_isl:
  "isl (SchemaInfo_model_validate L d) \<longleftrightarrow>
     isl (SchemaInfo_name_field d) \<or>
     isl (SchemaInfo_schema_field d)"
  by (simp add: SchemaInfo_model_validate_def isl_ap)

lemma SchemaInfo_model_validate_errors:
  "errors (SchemaInfo_model_validate L d) =
     errors (SchemaInfo_name_field d) @
     errors (SchemaInfo_schema_field d)"
  by (simp add: SchemaInfo_model_validate_def errors_ap errors_Inr)

lemma User_model_validate_InrD:
  assumes "User_model_validate L d = Inr u"
  shows "User_name_field d = Inr (User.name u)"
    and "User_email_field L d = Inr (email u)"
    and "User_hashed_password_field d = Inr (hashed_password u)"
    and "User_role_field d = Inr (role u)"
    and "User_avatar_url_field L d = Inr (avatar_url u)"
    and "User_is_active_field L d = Inr (is_active u)"
  using assms unfolding User_model_validate_Inr_iff by simp_all

lemma Ebook_model_validate_InrD:
  assumes "Ebook_model_validate L d = Inr b"
  shows "Ebook_title_field d = Inr (title b)"
    and "Ebook_author_field d = Inr (author b)"
    and "Ebook_description_field d = Inr (description b)"
    and "Ebook_price_field L d = Inr (price b)"
    and "Ebook_currency_field d = Inr (Ebook.currency b)"
    and "Ebook_cover_url_field L d = Inr (cover_url b)"
    and "Ebook_file_urls_field L d = Inr (file_urls b)"
    and "Ebook_categories_field d = Inr (categories b)"
    and "Ebook_published_field L d = Inr (published b)"
    and "Ebook_created_by_field d = Inr (created_by b)"
  using assms unfolding Ebook_model_validate_Inr_iff by simp_all

lemma Purchase_model_validate_InrD:
  assumes "Purchase_model_validate L d = Inr p"
  shows "Purchase_user_id_field d = Inr (Purchase.user_id p)"
    and "Purchase_ebook_id_field d = Inr (Purchase.ebook_id p)"
    and "Purchase_amount_field L d = Inr (amount p)"
    and "Purchase_currency_field d = Inr (Purchase.currency p)"
    and "Purchase_status_field d = Inr (status p)"
    and "Purchase_razorpay_order_id_field d = Inr (razorpay_order_id p)"
    and "Purchase_razorpay_payment_id_field d = Inr (razorpay_payment_id p)"
    and "Purchase_razorpay_signature_field d = Inr (razorpay_signature p)"
  using assms unfolding Purchase_model_validate_Inr_iff by simp_all

lemma LibraryItem_model_validate_InrD:
  assumes "LibraryItem_model_validate L d = Inr i"
  shows "LibraryItem_user_id_field d = Inr (LibraryItem.user_id i)"
    and "LibraryItem_ebook_id_field d = Inr (LibraryItem.ebook_id i)"
    and "LibraryItem_last_read_at_field L d = Inr (last_read_at i)"
    and "LibraryItem_progress_field L d = Inr (progress i)"
  using assms unfolding LibraryItem_model_validate_Inr_iff by simp_all

lemma SchemaInfo_model_validate_InrD:
  assumes "SchemaInfo_model_validate L d = Inr s"
  shows "SchemaInfo_name_field d = Inr (SchemaInfo.name s)"
    and "SchemaInfo_schema_field d = Inr (schema s)"
  using assms unfolding SchemaInfo_model_validate_Inr_iff by simp_all

subsection \<open>An accepted record meets the declared constraints\<close>

lemmas field_defs =
  User_name_field_def User_email_field_def User_hashed_password_field_def
  User_role_field_def User_avatar_url_field_def User_is_active_field_def
  Ebook_title_field_def Ebook_author_field_def Ebook_description_field_def
  Ebook_price_field_def Ebook_currency_field_def Ebook_cover_url_field_def
  Ebook_file_urls_field_def Ebook_categories_field_def Ebook_published_field_def
  Ebook_created_by_field_def Purchase_user_id_field_def Purchase_ebook_id_field_def
  Purchase_amount_field_def Purchase_currency_field_def Purchase_status_field_def
  Purchase_razorpay_order_id_field_def Purchase_razorpay_payment_id_field_def
  Purchase_razorpay_signature_field_def LibraryItem_user_id_field_def
  LibraryItem_ebook_id_field_def LibraryItem_last_read_at_field_def
  LibraryItem_progress_field_def SchemaInfo_name_field_def SchemaInfo_schema_field_def










subsection \<open>Serialising and validating again\<close>

lemma required_upd_same: "required (d(k \<mapsto> v)) k val = at_loc (FieldName k) (val v)"
  by (simp add: required_def)

lemma with_default_upd_same: "with_default (d(k \<mapsto> v)) k dflt val = at_loc (FieldName k) (val v)"
  by (simp add: with_default_def)

lemma required_upd_other: "k' \<noteq> k \<Longrightarrow> required (d(k' := x)) k val = required d k val"
  by (simp add: required_def)

lemma with_default_upd_other:
  "k' \<noteq> k \<Longrightarrow> with_default (d(k' := x)) k dflt val = with_default d k dflt val"
  by (simp add: with_default_def)

lemmas field_upd = required_upd_same with_default_upd_same required_upd_other
  with_default_upd_other
















subsection \<open>A document that meets the data model is accepted\<close>



lemma isl_nullable: "isl (nullable_schema val v) \<longleftrightarrow> v \<noteq> VNone \<and> isl (val v)"
  by (cases "val v") (auto simp: nullable_schema_def)
























subsection \<open>The errors of a rejected document\<close>

lemma Inl_errorI: "e \<in> set (errors r) \<Longrightarrow> \<exists>es. r = Inl es \<and> e \<in> set es"
  by (cases r) (auto simp: errors_def)

lemma reports_str_schema: "reports (str_schema mn mx)"
  by (auto simp: reports_def str_schema_def errors_fail split: option.splits if_splits)

lemma reports_literal_schema: "reports (literal_schema xs)"
  by (auto simp: reports_def literal_schema_def errors_fail split: option.splits if_splits)

lemma reports_float_schema: "reports (float_schema L ge le)"
  by (auto simp: reports_def float_schema_def errors_fail split: option.splits if_splits)

lemma reports_bool_schema: "reports (bool_schema L)"
  by (auto simp: reports_def bool_schema_def errors_fail split: option.splits)

lemma reports_datetime_schema: "reports (datetime_schema L)"
  by (auto simp: reports_def datetime_schema_def errors_fail split: option.splits)

lemma reports_email_schema: "reports (email_schema L)"
  by (auto simp: reports_def email_schema_def errors_fail split: option.splits)

lemma reports_url_schema: "reports (url_schema L)"
  by (auto simp: reports_def url_schema_def errors_fail split: option.splits)

lemma reports_Inr: "reports Inr"
  by (simp add: reports_def)

lemma reports_nullable_schema: "reports val \<Longrightarrow> reports (nullable_schema val)"
  unfolding reports_def
proof (intro allI impI)
  fix v
  assume val: "\<forall>v. isl (val v) \<longrightarrow> errors (val v) \<noteq> []"
    and "isl (nullable_schema val v)"
  then have "v \<noteq> VNone" "isl (val v)"
    by (simp_all add: isl_nullable)
  moreover from this val have "errors (val v) \<noteq> []"
    by blast
  ultimately show "errors (nullable_schema val v) \<noteq> []"
    by (cases "val v") (auto simp: nullable_schema_def errors_def)
qed

lemma list_items_reports:
  "reports val \<Longrightarrow> isl (list_items val i vs) \<Longrightarrow> errors (list_items val i vs) \<noteq> []"
  by (induction vs arbitrary: i)
     (auto simp: isl_ap errors_ap isl_at_loc errors_at_loc errors_Inr reports_def)

lemma dict_items_reports:
  "reports val \<Longrightarrow> isl (dict_items val kvs) \<Longrightarrow> errors (dict_items val kvs) \<noteq> []"
  by (induction kvs)
     (auto simp: isl_ap errors_ap isl_at_loc errors_at_loc errors_Inr reports_def)

lemma reports_list_schema: "reports val \<Longrightarrow> reports (list_schema val)"
  by (auto simp: reports_def [of "list_schema val"] list_schema_def errors_fail
      list_items_reports split: option.splits)

lemma reports_dict_schema: "reports val \<Longrightarrow> reports (dict_schema val)"
  by (auto simp: reports_def [of "dict_schema val"] dict_schema_def errors_fail
      dict_items_reports split: option.splits)

lemmas reports_schemas = reports_str_schema reports_literal_schema reports_float_schema
  reports_bool_schema reports_datetime_schema reports_email_schema reports_url_schema
  reports_Inr reports_nullable_schema reports_list_schema reports_dict_schema

lemma errors_not_isl: "\<not> isl r \<Longrightarrow> errors r = []"
  by (cases r) (auto simp: errors_def)

lemma errors_required_Nil_iff:
  "reports val \<Longrightarrow> errors (required d k val) = [] \<longleftrightarrow> \<not> isl (required d k val)"
  by (auto simp: reports_def errors_required isl_required errors_not_isl split: option.splits)

lemma errors_with_default_Nil_iff:
  "reports val \<Longrightarrow> errors (with_default d k dflt val) = [] \<longleftrightarrow> \<not> isl (with_default d k dflt val)"
  by (auto simp: reports_def errors_with_default isl_with_default errors_not_isl split: option.splits)


lemma User_model_validate_error_cases:
  assumes "e \<in> set (errors (User_model_validate L d))"
  shows "(error_field e = Some ''name'' \<and> e \<in> set (errors (User_name_field d))) \<or>
     (error_field e = Some ''email'' \<and> e \<in> set (errors (User_email_field L d))) \<or>
     (error_field e = Some ''hashed_password'' \<and> e \<in> set (errors (User_hashed_password_field d))) \<or>
     (error_field e = Some ''role'' \<and> e \<in> set (errors (User_role_field d))) \<or>
     (error_field e = Some ''avatar_url'' \<and> e \<in> set (errors (User_avatar_url_field L d))) \<or>
     (error_field e = Some ''is_active'' \<and> e \<in> set (errors (User_is_active_field L d)))"
  using assms unfolding User_model_validate_errors set_append Un_iff
  by (elim disjE; simp add: field_defs error_field_required error_field_with_default)


lemma Ebook_model_validate_error_cases:
  assumes "e \<in> set (errors (Ebook_model_validate L d))"
  shows "(error_field e = Some ''title'' \<and> e \<in> set (errors (Ebook_title_field d))) \<or>
     (error_field e = Some ''author'' \<and> e \<in> set (errors (Ebook_author_field d))) \<or>
     (error_field e = Some ''description'' \<and> e \<in> set (errors (Ebook_description_field d))) \<or>
     (error_field e = Some ''price'' \<and> e \<in> set (errors (Ebook_price_field L d))) \<or>
     (error_field e = Some ''currency'' \<and> e \<in> set (errors (Ebook_currency_field d))) \<or>
     (error_field e = Some ''cover_url'' \<and> e \<in> set (errors (Ebook_cover_url_field L d))) \<or>
     (error_field e = Some ''file_urls'' \<and> e \<in> set (errors (Ebook_file_urls_field L d))) \<or>
     (error_field e = Some ''categories'' \<and> e \<in> set (errors (Ebook_categories_field d))) \<or>
     (error_field e = Some ''published'' \<and> e \<in> set (errors (Ebook_published_field L d))) \<or>
     (error_field e = Some ''created_by'' \<and> e \<in> set (errors (Ebook_created_by_field d)))"
  using assms unfolding Ebook_model_validate_errors set_append Un_iff
  by (elim disjE; simp add: field_defs error_field_required error_field_with_default)


lemma Purchase_model_validate_error_cases:
  assumes "e \<in> set (errors (Purchase_model_validate L d))"
  shows "(error_field e = Some ''user_id'' \<and> e \<in> set (errors (Purchase_user_id_field d))) \<or>
     (error_field e = Some ''ebook_id'' \<and> e \<in> set (errors (Purchase_ebook_id_field d))) \<or>
     (error_field e = Some ''amount'' \<and> e \<in> set (errors (Purchase_amount_field L d))) \<or>
     (error_field e = Some ''currency'' \<and> e \<in> set (errors (Purchase_currency_field d))) \<or>
     (error_field e = Some ''status'' \<and> e \<in> set (errors (Purchase_status_field d))) \<or>
     (error_field e = Some ''razorpay_order_id'' \<and> e \<in> set (errors (Purchase_razorpay_order_id_field d))) \<or>
     (error_field e = Some ''razorpay_payment_id'' \<and> e \<in> set (errors (Purchase_razorpay_payment_id_field d))) \<or>
     (error_field e = Some ''razorpay_signature'' \<and> e \<in> set (errors (Purchase_razorpay_signature_field d)))"
  using assms unfolding Purchase_model_validate_errors set_append Un_iff
  by (elim disjE; simp add: field_defs error_field_required error_field_with_default)


lemma LibraryItem_model_validate_error_cases:
  assumes "e \<in> set (errors (LibraryItem_model_validate L d))"
  shows "(error_field e = Some ''user_id'' \<and> e \<in> set (errors (LibraryItem_user_id_field d))) \<or>
     (error_field e = Some ''ebook_id'' \<and> e \<in> set (errors (LibraryItem_ebook_id_field d))) \<or>
     (error_field e = Some ''last_read_at'' \<and> e \<in> set (errors (LibraryItem_last_read_at_field L d))) \<or>
     (error_field e = Some ''progress'' \<and> e \<in> set (errors (LibraryItem_progress_field L d)))"
  using assms unfolding LibraryItem_model_validate_errors set_append Un_iff
  by (elim disjE; simp add: field_defs error_field_required error_field_with_default)

lemma SchemaInfo_model_validate_errors_Nil_iff:
  "errors (SchemaInfo_model_validate L d) = [] \<longleftrightarrow> \<not> isl (SchemaInfo_model_validate L d)"
  unfolding SchemaInfo_model_validate_errors SchemaInfo_model_validate_isl field_defs
  by (simp add: errors_required_Nil_iff errors_with_default_Nil_iff reports_schemas)

lemma SchemaInfo_model_validate_error_cases:
  assumes "e \<in> set (errors (SchemaInfo_model_validate L d))"
  shows "(error_field e = Some ''name'' \<and> e \<in> set (errors (SchemaInfo_name_field d))) \<or>
     (error_field e = Some ''schema'' \<and> e \<in> set (errors (SchemaInfo_schema_field d)))"
  using assms unfolding SchemaInfo_model_validate_errors set_append Un_iff
  by (elim disjE; simp add: field_defs error_field_required error_field_with_default)


subsection \<open>The example documents, evaluated\<close>

lemmas eval_defs = field_defs ap_def required_def with_default_def at_loc_def fail_def
  str_schema_def literal_schema_def float_schema_def bool_schema_def datetime_schema_def
  email_schema_def url_schema_def nullable_schema_def list_schema_def dict_schema_def
  plain_lib_def has_at_def url_scheme_def is_alpha_def is_scheme_char_def str_def
  ada_doc_def purchase_doc_def ebook_doc_def library_doc_def

lemma ada_accepted:
  "User_model_validate plain_lib ada_doc =
     Inr \<lparr>User.name = str ''Ada'', email = str ''ada@x.com'',
          hashed_password = replicate 60 (of_char CHR ''x''), role = str ''user'',
          avatar_url = None, is_active = True\<rparr>"
  by (simp add: User_model_validate_def eval_defs)

lemma purchase_accepted:
  "Purchase_model_validate plain_lib purchase_doc =
     Inr \<lparr>Purchase.user_id = str ''u1'', Purchase.ebook_id = str ''e1'', amount = 199,
          Purchase.currency = str ''INR'',
          status = str ''created'', razorpay_order_id = None, razorpay_payment_id = None,
          razorpay_signature = None\<rparr>"
  by (simp add: Purchase_model_validate_def eval_defs)

lemma ebook_accepted:
  "Ebook_model_validate plain_lib ebook_doc =
     Inr \<lparr>title = str ''Dune'', author = str ''Frank Herbert'', description = None,
          price = 499, Ebook.currency = str ''INR'', cover_url = None, file_urls = [],
          categories = [], published = True, created_by = None\<rparr>"
  by (simp add: Ebook_model_validate_def eval_defs)

lemma library_accepted:
  "LibraryItem_model_validate plain_lib library_doc =
     Inr \<lparr>user_id = str ''u1'', ebook_id = str ''e1'', last_read_at = None, progress = 0\<rparr>"
  by (simp add: LibraryItem_model_validate_def eval_defs)


lemma plain_lib_rejects_malformed: "lib_rejects_malformed plain_lib"
  by (auto simp: lib_rejects_malformed_def plain_lib_def)


subsection \<open>All or nothing\<close>





















subsection \<open>Changing one field of a document\<close>

lemma User_name_replace:
  assumes "User_model_validate L (d(''name'' := x0)) = Inr u"
    and "User_name_field (d(''name'' := x)) = Inr a"
  shows "User_model_validate L (d(''name'' := x)) = Inr (u\<lparr>User.name := a\<rparr>)"
  using User_model_validate_InrD [OF assms(1)] assms(2)
  unfolding User_model_validate_Inr_iff
  by (simp add: field_defs field_upd)


lemma Ebook_created_by_replace:
  assumes "Ebook_model_validate L (d(''created_by'' := x0)) = Inr b"
    and "Ebook_created_by_field (d(''created_by'' := x)) = Inr a"
  shows "Ebook_model_validate L (d(''created_by'' := x)) = Inr (b\<lparr>created_by := a\<rparr>)"
  using Ebook_model_validate_InrD [OF assms(1)] assms(2)
  unfolding Ebook_model_validate_Inr_iff
  by (simp add: field_defs field_upd)


lemma Purchase_status_replace:
  assumes "Purchase_model_validate L (d(''status'' := x0)) = Inr p"
    and "Purchase_status_field (d(''status'' := x)) = Inr a"
  shows "Purchase_model_validate L (d(''status'' := x)) = Inr (p\<lparr>status := a\<rparr>)"
  using Purchase_model_validate_InrD [OF assms(1)] assms(2)
  unfolding Purchase_model_validate_Inr_iff
  by (simp add: field_defs field_upd)

lemma Purchase_user_id_replace:
  assumes "Purchase_model_validate L (d(''user_id'' := x0)) = Inr p"
    and "Purchase_user_id_field (d(''user_id'' := x)) = Inr a"
  shows "Purchase_model_validate L (d(''user_id'' := x)) = Inr (p\<lparr>Purchase.user_id := a\<rparr>)"
  using Purchase_model_validate_InrD [OF assms(1)] assms(2)
  unfolding Purchase_model_validate_Inr_iff
  by (simp add: field_defs field_upd)

lemma Purchase_ebook_id_replace:
  assumes "Purchase_model_validate L (d(''ebook_id'' := x0)) = Inr p"
    and "Purchase_ebook_id_field (d(''ebook_id'' := x)) = Inr a"
  shows "Purchase_model_validate L (d(''ebook_id'' := x)) = Inr (p\<lparr>Purchase.ebook_id := a\<rparr>)"
  using Purchase_model_validate_InrD [OF assms(1)] assms(2)
  unfolding Purchase_model_validate_Inr_iff
  by (simp add: field_defs field_upd)

lemma LibraryItem_progress_replace:
  assumes "LibraryItem_model_validate L (d(''progress'' := x0)) = Inr i"
    and "LibraryItem_progress_field L (d(''progress'' := x)) = Inr a"
  shows "LibraryItem_model_validate L (d(''progress'' := x)) = Inr (i\<lparr>progress := a\<rparr>)"
  using LibraryItem_model_validate_InrD [OF assms(1)] assms(2)
  unfolding LibraryItem_model_validate_Inr_iff
  by (simp add: field_defs field_upd)

lemma LibraryItem_user_id_replace:
  assumes "LibraryItem_model_validate L (d(''user_id'' := x0)) = Inr i"
    and "LibraryItem_user_id_field (d(''user_id'' := x)) = Inr a"
  shows "LibraryItem_model_validate L (d(''user_id'' := x)) = Inr (i\<lparr>LibraryItem.user_id := a\<rparr>)"
  using LibraryItem_model_validate_InrD [OF assms(1)] assms(2)
  unfolding LibraryItem_model_validate_Inr_iff
  by (simp add: field_defs field_upd)

lemma LibraryItem_ebook_id_replace:
  assumes "LibraryItem_model_validate L (d(''ebook_id'' := x0)) = Inr i"
    and "LibraryItem_ebook_id_field (d(''ebook_id'' := x)) = Inr a"
  shows "LibraryItem_model_validate L (d(''ebook_id'' := x)) = Inr (i\<lparr>LibraryItem.ebook_id := a\<rparr>)"
  using LibraryItem_model_validate_InrD [OF assms(1)] assms(2)
  unfolding LibraryItem_model_validate_Inr_iff
  by (simp add: field_defs field_upd)

lemma User_role_replace:
  assumes "User_model_validate L (d(''role'' := x0)) = Inr u"
    and "User_role_field (d(''role'' := x)) = Inr a"
  shows "User_model_validate L (d(''role'' := x)) = Inr (u\<lparr>role := a\<rparr>)"
  using User_model_validate_InrD [OF assms(1)] assms(2)
  unfolding User_model_validate_Inr_iff
  by (simp add: field_defs field_upd)

lemma User_is_active_replace:
  assumes "User_model_validate L (d(''is_active'' := x0)) = Inr u"
    and "User_is_active_field L (d(''is_active'' := x)) = Inr a"
  shows "User_model_validate L (d(''is_active'' := x)) = Inr (u\<lparr>is_active := a\<rparr>)"
  using User_model_validate_InrD [OF assms(1)] assms(2)
  unfolding User_model_validate_Inr_iff
  by (simp add: field_defs field_upd)

lemma Ebook_currency_replace:
  assumes "Ebook_model_validate L (d(''currency'' := x0)) = Inr b"
    and "Ebook_currency_field (d(''currency'' := x)) = Inr a"
  shows "Ebook_model_validate L (d(''currency'' := x)) = Inr (b\<lparr>Ebook.currency := a\<rparr>)"
  using Ebook_model_validate_InrD [OF assms(1)] assms(2)
  unfolding Ebook_model_validate_Inr_iff
  by (simp add: field_defs field_upd)

lemma Ebook_published_replace:
  assumes "Ebook_model_validate L (d(''published'' := x0)) = Inr b"
    and "Ebook_published_field L (d(''published'' := x)) = Inr a"
  shows "Ebook_model_validate L (d(''published'' := x)) = Inr (b\<lparr>published := a\<rparr>)"
  using Ebook_model_validate_InrD [OF assms(1)] assms(2)
  unfolding Ebook_model_validate_Inr_iff
  by (simp add: field_defs field_upd)

lemma Ebook_file_urls_replace:
  assumes "Ebook_model_validate L (d(''file_urls'' := x0)) = Inr b"
    and "Ebook_file_urls_field L (d(''file_urls'' := x)) = Inr a"
  shows "Ebook_model_validate L (d(''file_urls'' := x)) = Inr (b\<lparr>file_urls := a\<rparr>)"
  using Ebook_model_validate_InrD [OF assms(1)] assms(2)
  unfolding Ebook_model_validate_Inr_iff
  by (simp add: field_defs field_upd)

lemma Ebook_categories_replace:
  assumes "Ebook_model_validate L (d(''categories'' := x0)) = Inr b"
    and "Ebook_categories_field (d(''categories'' := x)) = Inr a"
  shows "Ebook_model_validate L (d(''categories'' := x)) = Inr (b\<lparr>categories := a\<rparr>)"
  using Ebook_model_validate_InrD [OF assms(1)] assms(2)
  unfolding Ebook_model_validate_Inr_iff
  by (simp add: field_defs field_upd)

lemma Purchase_currency_replace:
  assumes "Purchase_model_validate L (d(''currency'' := x0)) = Inr p"
    and "Purchase_currency_field (d(''currency'' := x)) = Inr a"
  shows "Purchase_model_validate L (d(''currency'' := x)) = Inr (p\<lparr>Purchase.currency := a\<rparr>)"
  using Purchase_model_validate_InrD [OF assms(1)] assms(2)
  unfolding Purchase_model_validate_Inr_iff
  by (simp add: field_defs field_upd)

subsection \<open>A failing field fails the construction\<close>

lemma User_name_error:
  "e \<in> set (errors (User_name_field d)) \<Longrightarrow>
     \<exists>es. User_model_validate L d = Inl es \<and> e \<in> set es"
  by (rule Inl_errorI) (simp add: User_model_validate_errors)

lemma User_email_error:
  "e \<in> set (errors (User_email_field L d)) \<Longrightarrow>
     \<exists>es. User_model_validate L d = Inl es \<and> e \<in> set es"
  by (rule Inl_errorI) (simp add: User_model_validate_errors)

lemma User_avatar_url_error:
  "e \<in> set (errors (User_avatar_url_field L d)) \<Longrightarrow>
     \<exists>es. User_model_validate L d = Inl es \<and> e \<in> set es"
  by (rule Inl_errorI) (simp add: User_model_validate_errors)


lemma Ebook_cover_url_error:
  "e \<in> set (errors (Ebook_cover_url_field L d)) \<Longrightarrow>
     \<exists>es. Ebook_model_validate L d = Inl es \<and> e \<in> set es"
  by (rule Inl_errorI) (simp add: Ebook_model_validate_errors)


lemma Purchase_status_error:
  "e \<in> set (errors (Purchase_status_field d)) \<Longrightarrow>
     \<exists>es. Purchase_model_validate L d = Inl es \<and> e \<in> set es"
  by (rule Inl_errorI) (simp add: Purchase_model_validate_errors)


subsection \<open>An omitted field with a default\<close>

lemma User_role_omitted:
  assumes "d ''role'' = None"
  shows "User_model_validate L d = Inr u \<Longrightarrow> role u = str ''user''"
    and "User_model_validate L d = Inl es \<Longrightarrow> e \<in> set es \<Longrightarrow> error_field e \<noteq> Some ''role''"
proof -
  have f: "User_role_field d = Inr (str ''user'')"
    by (simp add: User_role_field_def with_default_def assms)
  show "role u = str ''user''" if "User_model_validate L d = Inr u"
    using User_model_validate_InrD [OF that] f by simp
  show "error_field e \<noteq> Some ''role''"
    if "User_model_validate L d = Inl es" and "e \<in> set es"
  proof -
    have "e \<in> set (errors (User_model_validate L d))"
      using that by (simp add: errors_Inl)
    from User_model_validate_error_cases [OF this] show ?thesis
      by (auto simp: f errors_Inr)
  qed
qed

lemma User_is_active_omitted:
  assumes "d ''is_active'' = None"
  shows "User_model_validate L d = Inr u \<Longrightarrow> is_active u = True"
    and "User_model_validate L d = Inl es \<Longrightarrow> e \<in> set es \<Longrightarrow> error_field e \<noteq> Some ''is_active''"
proof -
  have f: "User_is_active_field L d = Inr (True)"
    by (simp add: User_is_active_field_def with_default_def assms)
  show "is_active u = True" if "User_model_validate L d = Inr u"
    using User_model_validate_InrD [OF that] f by simp
  show "error_field e \<noteq> Some ''is_active''"
    if "User_model_validate L d = Inl es" and "e \<in> set es"
  proof -
    have "e \<in> set (errors (User_model_validate L d))"
      using that by (simp add: errors_Inl)
    from User_model_validate_error_cases [OF this] show ?thesis
      by (auto simp: f errors_Inr)
  qed
qed

lemma Ebook_currency_omitted:
  assumes "d ''currency'' = None"
  shows "Ebook_model_validate L d = Inr b \<Longrightarrow> Ebook.currency b = str ''INR''"
    and "Ebook_model_validate L d = Inl es \<Longrightarrow> e \<in> set es \<Longrightarrow> error_field e \<noteq> Some ''currency''"
proof -
  have f: "Ebook_currency_field d = Inr (str ''INR'')"
    by (simp add: Ebook_currency_field_def with_default_def assms)
  show "Ebook.currency b = str ''INR''" if "Ebook_model_validate L d = Inr b"
    using Ebook_model_validate_InrD [OF that] f by simp
  show "error_field e \<noteq> Some ''currency''"
    if "Ebook_model_validate L d = Inl es" and "e \<in> set es"
  proof -
    have "e \<in> set (errors (Ebook_model_validate L d))"
      using that by (simp add: errors_Inl)
    from Ebook_model_validate_error_cases [OF this] show ?thesis
      by (auto simp: f errors_Inr)
  qed
qed

lemma Ebook_published_omitted:
  assumes "d ''published'' = None"
  shows "Ebook_model_validate L d = Inr b \<Longrightarrow> published b = True"
    and "Ebook_model_validate L d = Inl es \<Longrightarrow> e \<in> set es \<Longrightarrow> error_field e \<noteq> Some ''published''"
proof -
  have f: "Ebook_published_field L d = Inr (True)"
    by (simp add: Ebook_published_field_def with_default_def assms)
  show "published b = True" if "Ebook_model_validate L d = Inr b"
    using Ebook_model_validate_InrD [OF that] f by simp
  show "error_field e \<noteq> Some ''published''"
    if "Ebook_model_validate L d = Inl es" and "e \<in> set es"
  proof -
    have "e \<in> set (errors (Ebook_model_validate L d))"
      using that by (simp add: errors_Inl)
    from Ebook_model_validate_error_cases [OF this] show ?thesis
      by (auto simp: f errors_Inr)
  qed
qed

lemma Ebook_file_urls_omitted:
  assumes "d ''file_urls'' = None"
  shows "Ebook_model_validate L d = Inr b \<Longrightarrow> file_urls b = []"
    and "Ebook_model_validate L d = Inl es \<Longrightarrow> e \<in> set es \<Longrightarrow> error_field e \<noteq> Some ''file_urls''"
proof -
  have f: "Ebook_file_urls_field L d = Inr ([])"
    by (simp add: Ebook_file_urls_field_def with_default_def assms)
  show "file_urls b = []" if "Ebook_model_validate L d = Inr b"
    using Ebook_model_validate_InrD [OF that] f by simp
  show "error_field e \<noteq> Some ''file_urls''"
    if "Ebook_model_validate L d = Inl es" and "e \<in> set es"
  proof -
    have "e \<in> set (errors (Ebook_model_validate L d))"
      using that by (simp add: errors_Inl)
    from Ebook_model_validate_error_cases [OF this] show ?thesis
      by (auto simp: f errors_Inr)
  qed
qed

lemma Ebook_categories_omitted:
  assumes "d ''categories'' = None"
  shows "Ebook_model_validate L d = Inr b \<Longrightarrow> categories b = []"
    and "Ebook_model_validate L d = Inl es \<Longrightarrow> e \<in> set es \<Longrightarrow> error_field e \<noteq> Some ''categories''"
proof -
  have f: "Ebook_categories_field d = Inr ([])"
    by (simp add: Ebook_categories_field_def with_default_def assms)
  show "categories b = []" if "Ebook_model_validate L d = Inr b"
    using Ebook_model_validate_InrD [OF that] f by simp
  show "error_field e \<noteq> Some ''categories''"
    if "Ebook_model_validate L d = Inl es" and "e \<in> set es"
  proof -
    have "e \<in> set (errors (Ebook_model_validate L d))"
      using that by (simp add: errors_Inl)
    from Ebook_model_validate_error_cases [OF this] show ?thesis
      by (auto simp: f errors_Inr)
  qed
qed

lemma Purchase_currency_omitted:
  assumes "d ''currency'' = None"
  shows "Purchase_model_validate L d = Inr p \<Longrightarrow> Purchase.currency p = str ''INR''"
    and "Purchase_model_validate L d = Inl es \<Longrightarrow> e \<in> set es \<Longrightarrow> error_field e \<noteq> Some ''currency''"
proof -
  have f: "Purchase_currency_field d = Inr (str ''INR'')"
    by (simp add: Purchase_currency_field_def with_default_def assms)
  show "Purchase.currency p = str ''INR''" if "Purchase_model_validate L d = Inr p"
    using Purchase_model_validate_InrD [OF that] f by simp
  show "error_field e \<noteq> Some ''currency''"
    if "Purchase_model_validate L d = Inl es" and "e \<in> set es"
  proof -
    have "e \<in> set (errors (Purchase_model_validate L d))"
      using that by (simp add: errors_Inl)
    from Purchase_model_validate_error_cases [OF this] show ?thesis
      by (auto simp: f errors_Inr)
  qed
qed

lemma Purchase_status_omitted:
  assumes "d ''status'' = None"
  shows "Purchase_model_validate L d = Inr p \<Longrightarrow> status p = str ''created''"
    and "Purchase_model_validate L d = Inl es \<Longrightarrow> e \<in> set es \<Longrightarrow> error_field e \<noteq> Some ''status''"
proof -
  have f: "Purchase_status_field d = Inr (str ''created'')"
    by (simp add: Purchase_status_field_def with_default_def assms)
  show "status p = str ''created''" if "Purchase_model_validate L d = Inr p"
    using Purchase_model_validate_InrD [OF that] f by simp
  show "error_field e \<noteq> Some ''status''"
    if "Purchase_model_validate L d = Inl es" and "e \<in> set es"
  proof -
    have "e \<in> set (errors (Purchase_model_validate L d))"
      using that by (simp add: errors_Inl)
    from Purchase_model_validate_error_cases [OF this] show ?thesis
      by (auto simp: f errors_Inr)
  qed
qed

lemma LibraryItem_progress_omitted:
  assumes "d ''progress'' = None"
  shows "LibraryItem_model_validate L d = Inr i \<Longrightarrow> progress i = 0"
    and "LibraryItem_model_validate L d = Inl es \<Longrightarrow> e \<in> set es \<Longrightarrow> error_field e \<noteq> Some ''progress''"
proof -
  have f: "LibraryItem_progress_field L d = Inr (0)"
    by (simp add: LibraryItem_progress_field_def with_default_def assms)
  show "progress i = 0" if "LibraryItem_model_validate L d = Inr i"
    using LibraryItem_model_validate_InrD [OF that] f by simp
  show "error_field e \<noteq> Some ''progress''"
    if "LibraryItem_model_validate L d = Inl es" and "e \<in> set es"
  proof -
    have "e \<in> set (errors (LibraryItem_model_validate L d))"
      using that by (simp add: errors_Inl)
    from LibraryItem_model_validate_error_cases [OF this] show ?thesis
      by (auto simp: f errors_Inr)
  qed
qed


subsection \<open>A constructed record keeps what the document supplied\<close>






















subsection \<open>A missing or ill-typed identifier\<close>

lemma Purchase_user_id_error:
  "e \<in> set (errors (Purchase_user_id_field d)) \<Longrightarrow>
     \<exists>es. Purchase_model_validate L d = Inl es \<and> e \<in> set es"
  by (rule Inl_errorI) (simp add: Purchase_model_validate_errors)

lemma Purchase_ebook_id_error:
  "e \<in> set (errors (Purchase_ebook_id_field d)) \<Longrightarrow>
     \<exists>es. Purchase_model_validate L d = Inl es \<and> e \<in> set es"
  by (rule Inl_errorI) (simp add: Purchase_model_validate_errors)

lemma LibraryItem_user_id_error:
  "e \<in> set (errors (LibraryItem_user_id_field d)) \<Longrightarrow>
     \<exists>es. LibraryItem_model_validate L d = Inl es \<and> e \<in> set es"
  by (rule Inl_errorI) (simp add: LibraryItem_model_validate_errors)

lemma LibraryItem_ebook_id_error:
  "e \<in> set (errors (LibraryItem_ebook_id_field d)) \<Longrightarrow>
     \<exists>es. LibraryItem_model_validate L d = Inl es \<and> e \<in> set es"
  by (rule Inl_errorI) (simp add: LibraryItem_model_validate_errors)


lemma Ebook_created_by_error:
  "e \<in> set (errors (Ebook_created_by_field d)) \<Longrightarrow>
     \<exists>es. Ebook_model_validate L d = Inl es \<and> e \<in> set es"
  by (rule Inl_errorI) (simp add: Ebook_model_validate_errors)


section \<open>The claims\<close>



text \<open>
  C2. Each of the four tokens \<^verbatim>\<open>"created"\<close>, \<^verbatim>\<open>"paid"\<close>, \<^verbatim>\<open>"failed"\<close>, \<^verbatim>\<open>"refunded"\<close>
  is accepted as the status of a Purchase: a document that is accepted with some or no
  status is accepted with the token, and the record carries it. Every other string is
  rejected with a literal error at \<open>status\<close>.
\<close>

theorem Purchase_status_tokens:
  "(s \<in> {str ''created'', str ''paid'', str ''failed'', str ''refunded''} \<longrightarrow>
      Purchase_model_validate L (d(''status'' := x0)) = Inr p \<longrightarrow>
      Purchase_model_validate L (d(''status'' \<mapsto> VStr s)) = Inr (p\<lparr>status := s\<rparr>)) \<and>
   (s \<notin> {str ''created'', str ''paid'', str ''failed'', str ''refunded''} \<longrightarrow>
      (\<exists>es. Purchase_model_validate L (d(''status'' \<mapsto> VStr s)) = Inl es \<and>
         ([FieldName ''status''], Literal_error) \<in> set es))"
proof (intro conjI impI)
  assume "s \<in> {str ''created'', str ''paid'', str ''failed'', str ''refunded''}"
    and "Purchase_model_validate L (d(''status'' := x0)) = Inr p"
  then show "Purchase_model_validate L (d(''status'' \<mapsto> VStr s)) = Inr (p\<lparr>status := s\<rparr>)"
    by (intro Purchase_status_replace)
       (auto simp: Purchase_status_field_def with_default_def at_loc_def literal_schema_def)
next
  assume "s \<notin> {str ''created'', str ''paid'', str ''failed'', str ''refunded''}"
  then show "\<exists>es. Purchase_model_validate L (d(''status'' \<mapsto> VStr s)) = Inl es \<and>
      ([FieldName ''status''], Literal_error) \<in> set es"
    by (intro Purchase_status_error)
       (simp add: Purchase_status_field_def errors_with_default literal_schema_def errors_fail)
qed

theorem Purchase_status_tokens_witness:
  "\<exists>p. Purchase_model_validate plain_lib purchase_doc = Inr p \<and>
     Purchase_model_validate plain_lib (purchase_doc(''status'' \<mapsto> VStr (str ''created''))) =
       Inr (p\<lparr>status := str ''created''\<rparr>) \<and>
     Purchase_model_validate plain_lib (purchase_doc(''status'' \<mapsto> VStr (str ''paid''))) =
       Inr (p\<lparr>status := str ''paid''\<rparr>) \<and>
     Purchase_model_validate plain_lib (purchase_doc(''status'' \<mapsto> VStr (str ''failed''))) =
       Inr (p\<lparr>status := str ''failed''\<rparr>) \<and>
     Purchase_model_validate plain_lib (purchase_doc(''status'' \<mapsto> VStr (str ''refunded''))) =
       Inr (p\<lparr>status := str ''refunded''\<rparr>) \<and>
     (\<exists>es. Purchase_model_validate plain_lib (purchase_doc(''status'' \<mapsto> VStr (str ''pending''))) =
        Inl es \<and> ([FieldName ''status''], Literal_error) \<in> set es)"
proof -
  obtain p where p: "Purchase_model_validate plain_lib purchase_doc = Inr p"
    using purchase_accepted by blast
  have "purchase_doc(''status'' := None) = purchase_doc"
    by (rule ext) (simp add: purchase_doc_def)
  then have base: "Purchase_model_validate plain_lib (purchase_doc(''status'' := None)) = Inr p"
    using p by simp
  note t = Purchase_status_tokens [of _ plain_lib purchase_doc None p]
  show ?thesis
    using p base t [of "str ''created''"] t [of "str ''paid''"] t [of "str ''failed''"]
      t [of "str ''refunded''"] t [of "str ''pending''"]
    by (simp add: str_def)
qed

text \<open>
  C3. A field with a declared default may be omitted: when the document has no
  \<open>role\<close>, \<open>is_active\<close>, \<open>currency\<close>, \<open>published\<close>, \<open>status\<close> or \<open>progress\<close>, a successful
  construction carries \<^verbatim>\<open>"user"\<close>, true, \<^verbatim>\<open>"INR"\<close>, true, \<^verbatim>\<open>"created"\<close> and 0 there, and
  a failed one has no error located at the omitted field; and a document that is
  accepted with the field is accepted without it. In particular the document
  with \<open>user_id\<close> \<^verbatim>\<open>"u1"\<close>, \<open>ebook_id\<close> \<^verbatim>\<open>"e1"\<close> and \<open>amount\<close> 199.0 constructs a Purchase with
  currency \<^verbatim>\<open>"INR"\<close>, status \<^verbatim>\<open>"created"\<close> and the three razorpay fields \<^verbatim>\<open>None\<close>.
\<close>

theorem defaults_populated:
  "(du ''role'' = None \<longrightarrow>
      (User_model_validate L du = Inr u \<longrightarrow> role u = str ''user'') \<and>
      (User_model_validate L du = Inl es \<longrightarrow> e \<in> set es \<longrightarrow> error_field e \<noteq> Some ''role'')) \<and>
   (du ''is_active'' = None \<longrightarrow>
      (User_model_validate L du = Inr u \<longrightarrow> is_active u = True) \<and>
      (User_model_validate L du = Inl es \<longrightarrow> e \<in> set es \<longrightarrow>
         error_field e \<noteq> Some ''is_active'')) \<and>
   (db ''currency'' = None \<longrightarrow>
      (Ebook_model_validate L db = Inr b \<longrightarrow> Ebook.currency b = str ''INR'') \<and>
      (Ebook_model_validate L db = Inl es \<longrightarrow> e \<in> set es \<longrightarrow>
         error_field e \<noteq> Some ''currency'')) \<and>
   (db ''published'' = None \<longrightarrow>
      (Ebook_model_validate L db = Inr b \<longrightarrow> published b = True) \<and>
      (Ebook_model_validate L db = Inl es \<longrightarrow> e \<in> set es \<longrightarrow>
         error_field e \<noteq> Some ''published'')) \<and>
   (dp ''currency'' = None \<longrightarrow>
      (Purchase_model_validate L dp = Inr p \<longrightarrow> Purchase.currency p = str ''INR'') \<and>
      (Purchase_model_validate L dp = Inl es \<longrightarrow> e \<in> set es \<longrightarrow>
         error_field e \<noteq> Some ''currency'')) \<and>
   (dp ''status'' = None \<longrightarrow>
      (Purchase_model_validate L dp = Inr p \<longrightarrow> status p = str ''created'') \<and>
      (Purchase_model_validate L dp = Inl es \<longrightarrow> e \<in> set es \<longrightarrow>
         error_field e \<noteq> Some ''status'')) \<and>
   (di ''progress'' = None \<longrightarrow>
      (LibraryItem_model_validate L di = Inr i \<longrightarrow> progress i = 0) \<and>
      (LibraryItem_model_validate L di = Inl es \<longrightarrow> e \<in> set es \<longrightarrow>
         error_field e \<noteq> Some ''progress'')) \<and>
   (User_model_validate L (du(''role'' := x0)) = Inr u \<longrightarrow>
      User_model_validate L (du(''role'' := None)) = Inr (u\<lparr>role := str ''user''\<rparr>)) \<and>
   (User_model_validate L (du(''is_active'' := x0)) = Inr u \<longrightarrow>
      User_model_validate L (du(''is_active'' := None)) = Inr (u\<lparr>is_active := True\<rparr>)) \<and>
   (Ebook_model_validate L (db(''currency'' := x0)) = Inr b \<longrightarrow>
      Ebook_model_validate L (db(''currency'' := None)) = Inr (b\<lparr>Ebook.currency := str ''INR''\<rparr>)) \<and>
   (Ebook_model_validate L (db(''published'' := x0)) = Inr b \<longrightarrow>
      Ebook_model_validate L (db(''published'' := None)) = Inr (b\<lparr>published := True\<rparr>)) \<and>
   (Purchase_model_validate L (dp(''currency'' := x0)) = Inr p \<longrightarrow>
      Purchase_model_validate L (dp(''currency'' := None)) = Inr (p\<lparr>Purchase.currency := str ''INR''\<rparr>)) \<and>
   (Purchase_model_validate L (dp(''status'' := x0)) = Inr p \<longrightarrow>
      Purchase_model_validate L (dp(''status'' := None)) = Inr (p\<lparr>status := str ''created''\<rparr>)) \<and>
   (LibraryItem_model_validate L (di(''progress'' := x0)) = Inr i \<longrightarrow>
      LibraryItem_model_validate L (di(''progress'' := None)) = Inr (i\<lparr>progress := 0\<rparr>)) \<and>
   Purchase_model_validate L purchase_doc =
     Inr \<lparr>Purchase.user_id = str ''u1'', Purchase.ebook_id = str ''e1'', amount = 199,
          Purchase.currency = str ''INR'', status = str ''created'',
          razorpay_order_id = None, razorpay_payment_id = None, razorpay_signature = None\<rparr>"
proof -
  have ex: "Purchase_model_validate L purchase_doc =
     Inr \<lparr>Purchase.user_id = str ''u1'', Purchase.ebook_id = str ''e1'', amount = 199,
          Purchase.currency = str ''INR'', status = str ''created'',
          razorpay_order_id = None, razorpay_payment_id = None, razorpay_signature = None\<rparr>"
    by (simp add: Purchase_model_validate_def field_defs ap_def required_def with_default_def
        at_loc_def str_schema_def float_schema_def purchase_doc_def)
  show ?thesis
    by (intro conjI impI;
        (erule (1) User_role_omitted(1) User_is_active_omitted(1) Ebook_currency_omitted(1)
           Ebook_published_omitted(1) Purchase_currency_omitted(1) Purchase_status_omitted(1)
           LibraryItem_progress_omitted(1)
         | erule (2) User_role_omitted(2) User_is_active_omitted(2) Ebook_currency_omitted(2)
           Ebook_published_omitted(2) Purchase_currency_omitted(2) Purchase_status_omitted(2)
           LibraryItem_progress_omitted(2)
         | rule ex
         | (erule User_role_replace User_is_active_replace Ebook_currency_replace
              Ebook_published_replace Purchase_currency_replace Purchase_status_replace
              LibraryItem_progress_replace,
            simp add: field_defs with_default_def)))
qed

theorem defaults_populated_witness:
  "ada_doc ''role'' = None \<and> ada_doc ''is_active'' = None \<and>
   (\<exists>u. User_model_validate plain_lib ada_doc = Inr u \<and>
      role u = str ''user'' \<and> is_active u = True) \<and>
   ebook_doc ''currency'' = None \<and> ebook_doc ''published'' = None \<and>
   (\<exists>b. Ebook_model_validate plain_lib ebook_doc = Inr b \<and>
      Ebook.currency b = str ''INR'' \<and> published b = True) \<and>
   purchase_doc ''currency'' = None \<and> purchase_doc ''status'' = None \<and>
   (\<exists>p. Purchase_model_validate plain_lib purchase_doc = Inr p \<and>
      Purchase.currency p = str ''INR'' \<and> status p = str ''created'' \<and>
      razorpay_order_id p = None \<and> razorpay_payment_id p = None \<and>
      razorpay_signature p = None) \<and>
   library_doc ''progress'' = None \<and>
   (\<exists>i. LibraryItem_model_validate plain_lib library_doc = Inr i \<and> progress i = 0) \<and>
   (\<exists>es. User_model_validate plain_lib Map.empty = Inl es \<and>
      (\<forall>e\<in>set es. error_field e \<noteq> Some ''role'' \<and> error_field e \<noteq> Some ''is_active''))"
proof -
  obtain u b i where r: "User_model_validate plain_lib ada_doc = Inr u"
      "Ebook_model_validate plain_lib ebook_doc = Inr b"
      "LibraryItem_model_validate plain_lib library_doc = Inr i"
    using ada_accepted ebook_accepted library_accepted by blast
  have n: "ada_doc ''role'' = None" "ada_doc ''is_active'' = None"
    "ebook_doc ''currency'' = None" "ebook_doc ''published'' = None"
    "purchase_doc ''currency'' = None" "purchase_doc ''status'' = None"
    "library_doc ''progress'' = None"
    by (simp_all add: ada_doc_def ebook_doc_def purchase_doc_def library_doc_def)
  obtain es where es: "User_model_validate plain_lib Map.empty = Inl es"
    by (simp add: User_model_validate_def eval_defs)
  note t = defaults_populated [where L = plain_lib]
  have "\<forall>e\<in>set es. error_field e \<noteq> Some ''role'' \<and> error_field e \<noteq> Some ''is_active''"
    using t [where du = Map.empty and es = es] es by simp
  then show ?thesis
    using r n es
      t [where du = ada_doc and db = ebook_doc and dp = purchase_doc and di = library_doc
        and u = u and b = b and i = i]
    by simp
qed

text \<open>
  C4. The length bound of \<open>User.name\<close> is inclusive at both ends: a name of length 2 to
  120 is accepted (in a document whose other fields are accepted) and kept as it is; a
  shorter name, so one of length 1, is rejected as too short, and a longer one, so one
  of length 121, as too long.
\<close>

theorem User_name_length_bounds:
  "(2 \<le> length n \<longrightarrow> length n \<le> 120 \<longrightarrow>
      User_model_validate L (d(''name'' := x0)) = Inr u \<longrightarrow>
      User_model_validate L (d(''name'' \<mapsto> VStr n)) = Inr (u\<lparr>User.name := n\<rparr>)) \<and>
   (length n < 2 \<longrightarrow>
      (\<exists>es. User_model_validate L (d(''name'' \<mapsto> VStr n)) = Inl es \<and>
         ([FieldName ''name''], String_too_short 2) \<in> set es)) \<and>
   (120 < length n \<longrightarrow>
      (\<exists>es. User_model_validate L (d(''name'' \<mapsto> VStr n)) = Inl es \<and>
         ([FieldName ''name''], String_too_long 120) \<in> set es))"
proof (intro conjI impI)
  assume "2 \<le> length n" and "length n \<le> 120"
    and "User_model_validate L (d(''name'' := x0)) = Inr u"
  then show "User_model_validate L (d(''name'' \<mapsto> VStr n)) = Inr (u\<lparr>User.name := n\<rparr>)"
    by (intro User_name_replace)
       (auto simp: User_name_field_def required_def at_loc_def str_schema_def)
next
  assume "length n < 2"
  then show "\<exists>es. User_model_validate L (d(''name'' \<mapsto> VStr n)) = Inl es \<and>
      ([FieldName ''name''], String_too_short 2) \<in> set es"
    by (intro User_name_error)
       (simp add: User_name_field_def errors_required str_schema_def errors_fail)
next
  assume "120 < length n"
  then show "\<exists>es. User_model_validate L (d(''name'' \<mapsto> VStr n)) = Inl es \<and>
      ([FieldName ''name''], String_too_long 120) \<in> set es"
    by (intro User_name_error)
       (simp add: User_name_field_def errors_required str_schema_def errors_fail)
qed

theorem User_name_length_bounds_witness:
  "\<exists>u. User_model_validate plain_lib ada_doc = Inr u \<and>
     (\<exists>es. User_model_validate plain_lib (ada_doc(''name'' \<mapsto> VStr (replicate 1 97))) = Inl es \<and>
        ([FieldName ''name''], String_too_short 2) \<in> set es) \<and>
     User_model_validate plain_lib (ada_doc(''name'' \<mapsto> VStr (replicate 2 97))) =
       Inr (u\<lparr>User.name := replicate 2 97\<rparr>) \<and>
     User_model_validate plain_lib (ada_doc(''name'' \<mapsto> VStr (replicate 120 97))) =
       Inr (u\<lparr>User.name := replicate 120 97\<rparr>) \<and>
     (\<exists>es. User_model_validate plain_lib (ada_doc(''name'' \<mapsto> VStr (replicate 121 97))) = Inl es \<and>
        ([FieldName ''name''], String_too_long 120) \<in> set es)"
proof -
  obtain u where u: "User_model_validate plain_lib ada_doc = Inr u"
    using ada_accepted by blast
  have "ada_doc(''name'' \<mapsto> VStr (str ''Ada'')) = ada_doc"
    by (rule ext) (simp add: ada_doc_def)
  then have base: "User_model_validate plain_lib (ada_doc(''name'' \<mapsto> VStr (str ''Ada''))) = Inr u"
    using u by simp
  note t = User_name_length_bounds [of _ plain_lib ada_doc "Some (VStr (str ''Ada''))" u]
  show ?thesis
    using u base t [of "replicate 1 97"] t [of "replicate 2 97"] t [of "replicate 120 97"]
      t [of "replicate 121 97"]
    by simp
qed




text \<open>
  C6. With an email type that rejects a string without \<^verbatim>\<open>@\<close> and a URL type that
  rejects a string without a scheme, as the specification says of the imported types,
  the construction of a User fails on such an \<open>email\<close> and on such an \<open>avatar_url\<close>, and
  the construction of an Ebook fails on such a \<open>cover_url\<close>; \<^verbatim>\<open>"not-a-url"\<close> has no
  scheme.
\<close>

theorem malformed_email_and_url_rejected:
  assumes "lib_rejects_malformed L"
  shows "(\<not> has_at s \<longrightarrow>
      (\<exists>es. User_model_validate L (du(''email'' \<mapsto> VStr s)) = Inl es \<and>
         ([FieldName ''email''], Value_error) \<in> set es)) \<and>
   (url_scheme s = None \<longrightarrow>
      (\<exists>es. User_model_validate L (du(''avatar_url'' \<mapsto> VStr s)) = Inl es \<and>
         ([FieldName ''avatar_url''], Url_parsing) \<in> set es)) \<and>
   (url_scheme s = None \<longrightarrow>
      (\<exists>es. Ebook_model_validate L (db(''cover_url'' \<mapsto> VStr s)) = Inl es \<and>
         ([FieldName ''cover_url''], Url_parsing) \<in> set es)) \<and>
   url_scheme (str ''not-a-url'') = None"
proof (intro conjI impI)
  assume "\<not> has_at s"
  then have "EmailStr L s = None"
    using assms by (simp add: lib_rejects_malformed_def)
  then show "\<exists>es. User_model_validate L (du(''email'' \<mapsto> VStr s)) = Inl es \<and>
      ([FieldName ''email''], Value_error) \<in> set es"
    by (intro User_email_error)
       (simp add: User_email_field_def errors_required email_schema_def errors_fail)
next
  assume "url_scheme s = None"
  then have u: "HttpUrl L s = None"
    using assms by (simp add: lib_rejects_malformed_def)
  show "\<exists>es. User_model_validate L (du(''avatar_url'' \<mapsto> VStr s)) = Inl es \<and>
      ([FieldName ''avatar_url''], Url_parsing) \<in> set es"
    by (intro User_avatar_url_error)
       (simp add: User_avatar_url_field_def errors_with_default nullable_schema_def
          url_schema_def fail_def errors_Inl u)
  show "\<exists>es. Ebook_model_validate L (db(''cover_url'' \<mapsto> VStr s)) = Inl es \<and>
      ([FieldName ''cover_url''], Url_parsing) \<in> set es"
    by (intro Ebook_cover_url_error)
       (simp add: Ebook_cover_url_field_def errors_with_default nullable_schema_def
          url_schema_def fail_def errors_Inl u)
next
  show "url_scheme (str ''not-a-url'') = None"
    by (simp add: url_scheme_def str_def is_alpha_def is_scheme_char_def)
qed

theorem malformed_email_and_url_rejected_witness:
  "lib_rejects_malformed plain_lib \<and>
   \<not> has_at (str ''ada.x.com'') \<and>
   (\<exists>es. User_model_validate plain_lib (ada_doc(''email'' \<mapsto> VStr (str ''ada.x.com''))) = Inl es \<and>
      ([FieldName ''email''], Value_error) \<in> set es) \<and>
   url_scheme (str ''not-a-url'') = None \<and>
   (\<exists>es. User_model_validate plain_lib (ada_doc(''avatar_url'' \<mapsto> VStr (str ''not-a-url''))) =
      Inl es \<and> ([FieldName ''avatar_url''], Url_parsing) \<in> set es) \<and>
   (\<exists>es. Ebook_model_validate plain_lib (ebook_doc(''cover_url'' \<mapsto> VStr (str ''not-a-url''))) =
      Inl es \<and> ([FieldName ''cover_url''], Url_parsing) \<in> set es)"
proof -
  have a: "\<not> has_at (str ''ada.x.com'')"
    by (simp add: has_at_def str_def)
  note t = malformed_email_and_url_rejected [OF plain_lib_rejects_malformed,
      where du = ada_doc and db = ebook_doc]
  show ?thesis
    using plain_lib_rejects_malformed a t [of "str ''ada.x.com''"] t [of "str ''not-a-url''"]
    by simp
qed






text \<open>
  C9. An Ebook may omit \<open>file_urls\<close> and \<open>categories\<close>: a successful construction then
  carries the empty mapping and the empty list, and a failed one has no error located
  at either field; and an Ebook document that is accepted with the field is accepted
  without it.
\<close>

theorem Ebook_empty_collection_defaults:
  "(d ''file_urls'' = None \<longrightarrow>
      (Ebook_model_validate L d = Inr b \<longrightarrow> file_urls b = []) \<and>
      (Ebook_model_validate L d = Inl es \<longrightarrow> e \<in> set es \<longrightarrow>
         error_field e \<noteq> Some ''file_urls'')) \<and>
   (d ''categories'' = None \<longrightarrow>
      (Ebook_model_validate L d = Inr b \<longrightarrow> categories b = []) \<and>
      (Ebook_model_validate L d = Inl es \<longrightarrow> e \<in> set es \<longrightarrow>
         error_field e \<noteq> Some ''categories'')) \<and>
   (Ebook_model_validate L (d(''file_urls'' := x0)) = Inr b \<longrightarrow>
      Ebook_model_validate L (d(''file_urls'' := None)) = Inr (b\<lparr>file_urls := []\<rparr>)) \<and>
   (Ebook_model_validate L (d(''categories'' := x0)) = Inr b \<longrightarrow>
      Ebook_model_validate L (d(''categories'' := None)) = Inr (b\<lparr>categories := []\<rparr>))"
  by (intro conjI impI;
      (erule (1) Ebook_file_urls_omitted(1) Ebook_categories_omitted(1)
       | erule (2) Ebook_file_urls_omitted(2) Ebook_categories_omitted(2)
       | (erule Ebook_file_urls_replace Ebook_categories_replace,
          simp add: field_defs with_default_def)))

theorem Ebook_empty_collection_defaults_witness:
  "ebook_doc ''file_urls'' = None \<and> ebook_doc ''categories'' = None \<and>
   (\<exists>b. Ebook_model_validate plain_lib ebook_doc = Inr b \<and>
      file_urls b = [] \<and> categories b = []) \<and>
   (\<exists>es. Ebook_model_validate plain_lib Map.empty = Inl es \<and> es \<noteq> [] \<and>
      (\<forall>e\<in>set es. error_field e \<noteq> Some ''file_urls'' \<and>
         error_field e \<noteq> Some ''categories''))"
proof -
  obtain b where b: "Ebook_model_validate plain_lib ebook_doc = Inr b"
    using ebook_accepted by blast
  have n: "ebook_doc ''file_urls'' = None" "ebook_doc ''categories'' = None"
    by (simp_all add: ebook_doc_def)
  have es: "Ebook_model_validate plain_lib Map.empty =
      Inl [([FieldName ''title''], Missing), ([FieldName ''author''], Missing),
           ([FieldName ''price''], Missing)]"
    by (simp add: Ebook_model_validate_def eval_defs)
  note t = Ebook_empty_collection_defaults [where L = plain_lib]
  have "\<forall>e\<in>set [([FieldName ''title''], Missing), ([FieldName ''author''], Missing),
           ([FieldName ''price''], Missing)].
      error_field e \<noteq> Some ''file_urls'' \<and> error_field e \<noteq> Some ''categories''"
    using t [where d = Map.empty] es by blast
  then show ?thesis
    using b n t [where d = ebook_doc and b = b] by (simp add: es)
qed

text \<open>
  C10. The identifier fields \<open>Purchase.user_id\<close>, \<open>Purchase.ebook_id\<close>,
  \<open>LibraryItem.user_id\<close>, \<open>LibraryItem.ebook_id\<close> and \<open>Ebook.created_by\<close> accept every
  string, the empty one included: a document that is accepted stays accepted when the
  identifier is replaced by any string, and the record carries that string. The four
  required identifiers must be present: a document without one is rejected as missing
  it. And an identifier must be a string: a value of another type (other than \<^verbatim>\<open>None\<close>
  for the optional \<open>created_by\<close>) is rejected as not a string.
\<close>

theorem identifiers_accept_every_string:
  "(Purchase_model_validate L (dp(''user_id'' := x0)) = Inr p \<longrightarrow>
      Purchase_model_validate L (dp(''user_id'' \<mapsto> VStr s)) = Inr (p\<lparr>Purchase.user_id := s\<rparr>)) \<and>
   (Purchase_model_validate L (dp(''ebook_id'' := x0)) = Inr p \<longrightarrow>
      Purchase_model_validate L (dp(''ebook_id'' \<mapsto> VStr s)) = Inr (p\<lparr>Purchase.ebook_id := s\<rparr>)) \<and>
   (LibraryItem_model_validate L (di(''user_id'' := x0)) = Inr i \<longrightarrow>
      LibraryItem_model_validate L (di(''user_id'' \<mapsto> VStr s)) =
        Inr (i\<lparr>LibraryItem.user_id := s\<rparr>)) \<and>
   (LibraryItem_model_validate L (di(''ebook_id'' := x0)) = Inr i \<longrightarrow>
      LibraryItem_model_validate L (di(''ebook_id'' \<mapsto> VStr s)) =
        Inr (i\<lparr>LibraryItem.ebook_id := s\<rparr>)) \<and>
   (Ebook_model_validate L (db(''created_by'' := x0)) = Inr b \<longrightarrow>
      Ebook_model_validate L (db(''created_by'' \<mapsto> VStr s)) = Inr (b\<lparr>created_by := Some s\<rparr>)) \<and>
   (dp ''user_id'' = None \<longrightarrow>
      (\<exists>es. Purchase_model_validate L dp = Inl es \<and> ([FieldName ''user_id''], Missing) \<in> set es)) \<and>
   (dp ''ebook_id'' = None \<longrightarrow>
      (\<exists>es. Purchase_model_validate L dp = Inl es \<and> ([FieldName ''ebook_id''], Missing) \<in> set es)) \<and>
   (di ''user_id'' = None \<longrightarrow>
      (\<exists>es. LibraryItem_model_validate L di = Inl es \<and>
         ([FieldName ''user_id''], Missing) \<in> set es)) \<and>
   (di ''ebook_id'' = None \<longrightarrow>
      (\<exists>es. LibraryItem_model_validate L di = Inl es \<and>
         ([FieldName ''ebook_id''], Missing) \<in> set es)) \<and>
   (as_str v = None \<longrightarrow>
      (\<exists>es. Purchase_model_validate L (dp(''user_id'' \<mapsto> v)) = Inl es \<and>
         ([FieldName ''user_id''], String_type) \<in> set es)) \<and>
   (as_str v = None \<longrightarrow>
      (\<exists>es. Purchase_model_validate L (dp(''ebook_id'' \<mapsto> v)) = Inl es \<and>
         ([FieldName ''ebook_id''], String_type) \<in> set es)) \<and>
   (as_str v = None \<longrightarrow>
      (\<exists>es. LibraryItem_model_validate L (di(''user_id'' \<mapsto> v)) = Inl es \<and>
         ([FieldName ''user_id''], String_type) \<in> set es)) \<and>
   (as_str v = None \<longrightarrow>
      (\<exists>es. LibraryItem_model_validate L (di(''ebook_id'' \<mapsto> v)) = Inl es \<and>
         ([FieldName ''ebook_id''], String_type) \<in> set es)) \<and>
   (as_str v = None \<longrightarrow> v \<noteq> VNone \<longrightarrow>
      (\<exists>es. Ebook_model_validate L (db(''created_by'' \<mapsto> v)) = Inl es \<and>
         ([FieldName ''created_by''], String_type) \<in> set es))"
proof (intro conjI impI)
  assume "Purchase_model_validate L (dp(''user_id'' := x0)) = Inr p"
  then show "Purchase_model_validate L (dp(''user_id'' \<mapsto> VStr s)) =
      Inr (p\<lparr>Purchase.user_id := s\<rparr>)"
    by (rule Purchase_user_id_replace)
       (simp add: Purchase_user_id_field_def required_def at_loc_def str_schema_def)
next
  assume "Purchase_model_validate L (dp(''ebook_id'' := x0)) = Inr p"
  then show "Purchase_model_validate L (dp(''ebook_id'' \<mapsto> VStr s)) =
      Inr (p\<lparr>Purchase.ebook_id := s\<rparr>)"
    by (rule Purchase_ebook_id_replace)
       (simp add: Purchase_ebook_id_field_def required_def at_loc_def str_schema_def)
next
  assume "LibraryItem_model_validate L (di(''user_id'' := x0)) = Inr i"
  then show "LibraryItem_model_validate L (di(''user_id'' \<mapsto> VStr s)) =
      Inr (i\<lparr>LibraryItem.user_id := s\<rparr>)"
    by (rule LibraryItem_user_id_replace)
       (simp add: LibraryItem_user_id_field_def required_def at_loc_def str_schema_def)
next
  assume "LibraryItem_model_validate L (di(''ebook_id'' := x0)) = Inr i"
  then show "LibraryItem_model_validate L (di(''ebook_id'' \<mapsto> VStr s)) =
      Inr (i\<lparr>LibraryItem.ebook_id := s\<rparr>)"
    by (rule LibraryItem_ebook_id_replace)
       (simp add: LibraryItem_ebook_id_field_def required_def at_loc_def str_schema_def)
next
  assume "Ebook_model_validate L (db(''created_by'' := x0)) = Inr b"
  then show "Ebook_model_validate L (db(''created_by'' \<mapsto> VStr s)) =
      Inr (b\<lparr>created_by := Some s\<rparr>)"
    by (rule Ebook_created_by_replace)
       (simp add: Ebook_created_by_field_def with_default_def at_loc_def str_schema_def
          nullable_schema_def)
next
  assume "dp ''user_id'' = None"
  then show "\<exists>es. Purchase_model_validate L dp = Inl es \<and>
      ([FieldName ''user_id''], Missing) \<in> set es"
    by (intro Purchase_user_id_error) (simp add: Purchase_user_id_field_def errors_required)
next
  assume "dp ''ebook_id'' = None"
  then show "\<exists>es. Purchase_model_validate L dp = Inl es \<and>
      ([FieldName ''ebook_id''], Missing) \<in> set es"
    by (intro Purchase_ebook_id_error) (simp add: Purchase_ebook_id_field_def errors_required)
next
  assume "di ''user_id'' = None"
  then show "\<exists>es. LibraryItem_model_validate L di = Inl es \<and>
      ([FieldName ''user_id''], Missing) \<in> set es"
    by (intro LibraryItem_user_id_error)
       (simp add: LibraryItem_user_id_field_def errors_required)
next
  assume "di ''ebook_id'' = None"
  then show "\<exists>es. LibraryItem_model_validate L di = Inl es \<and>
      ([FieldName ''ebook_id''], Missing) \<in> set es"
    by (intro LibraryItem_ebook_id_error)
       (simp add: LibraryItem_ebook_id_field_def errors_required)
next
  assume v: "as_str v = None"
  show "\<exists>es. Purchase_model_validate L (dp(''user_id'' \<mapsto> v)) = Inl es \<and>
      ([FieldName ''user_id''], String_type) \<in> set es"
    by (intro Purchase_user_id_error)
       (simp add: Purchase_user_id_field_def errors_required str_schema_def errors_fail v)
  show "\<exists>es. Purchase_model_validate L (dp(''ebook_id'' \<mapsto> v)) = Inl es \<and>
      ([FieldName ''ebook_id''], String_type) \<in> set es"
    by (intro Purchase_ebook_id_error)
       (simp add: Purchase_ebook_id_field_def errors_required str_schema_def errors_fail v)
  show "\<exists>es. LibraryItem_model_validate L (di(''user_id'' \<mapsto> v)) = Inl es \<and>
      ([FieldName ''user_id''], String_type) \<in> set es"
    by (intro LibraryItem_user_id_error)
       (simp add: LibraryItem_user_id_field_def errors_required str_schema_def errors_fail v)
  show "\<exists>es. LibraryItem_model_validate L (di(''ebook_id'' \<mapsto> v)) = Inl es \<and>
      ([FieldName ''ebook_id''], String_type) \<in> set es"
    by (intro LibraryItem_ebook_id_error)
       (simp add: LibraryItem_ebook_id_field_def errors_required str_schema_def errors_fail v)
  show "\<exists>es. Ebook_model_validate L (db(''created_by'' \<mapsto> v)) = Inl es \<and>
      ([FieldName ''created_by''], String_type) \<in> set es" if "v \<noteq> VNone"
    using that
    by (intro Ebook_created_by_error)
       (simp add: Ebook_created_by_field_def errors_with_default nullable_schema_def
          str_schema_def fail_def errors_Inl v)
qed

theorem identifiers_accept_every_string_witness:
  "\<exists>p i b.
     Purchase_model_validate plain_lib purchase_doc = Inr p \<and>
     LibraryItem_model_validate plain_lib library_doc = Inr i \<and>
     Ebook_model_validate plain_lib ebook_doc = Inr b \<and>
     Purchase_model_validate plain_lib (purchase_doc(''user_id'' \<mapsto> VStr [])) =
       Inr (p\<lparr>Purchase.user_id := []\<rparr>) \<and>
     Purchase_model_validate plain_lib (purchase_doc(''ebook_id'' \<mapsto> VStr [])) =
       Inr (p\<lparr>Purchase.ebook_id := []\<rparr>) \<and>
     LibraryItem_model_validate plain_lib (library_doc(''user_id'' \<mapsto> VStr [])) =
       Inr (i\<lparr>LibraryItem.user_id := []\<rparr>) \<and>
     LibraryItem_model_validate plain_lib (library_doc(''ebook_id'' \<mapsto> VStr [])) =
       Inr (i\<lparr>LibraryItem.ebook_id := []\<rparr>) \<and>
     Ebook_model_validate plain_lib (ebook_doc(''created_by'' \<mapsto> VStr [])) =
       Inr (b\<lparr>created_by := Some []\<rparr>) \<and>
     (\<exists>es. Purchase_model_validate plain_lib Map.empty = Inl es \<and>
        ([FieldName ''user_id''], Missing) \<in> set es) \<and>
     (\<exists>es. Purchase_model_validate plain_lib Map.empty = Inl es \<and>
        ([FieldName ''ebook_id''], Missing) \<in> set es) \<and>
     (\<exists>es. LibraryItem_model_validate plain_lib Map.empty = Inl es \<and>
        ([FieldName ''user_id''], Missing) \<in> set es) \<and>
     (\<exists>es. LibraryItem_model_validate plain_lib Map.empty = Inl es \<and>
        ([FieldName ''ebook_id''], Missing) \<in> set es) \<and>
     (\<exists>es. Purchase_model_validate plain_lib (purchase_doc(''user_id'' \<mapsto> VInt 7)) = Inl es \<and>
        ([FieldName ''user_id''], String_type) \<in> set es) \<and>
     (\<exists>es. Ebook_model_validate plain_lib (ebook_doc(''created_by'' \<mapsto> VInt 7)) = Inl es \<and>
        ([FieldName ''created_by''], String_type) \<in> set es)"
proof -
  obtain p i b where r: "Purchase_model_validate plain_lib purchase_doc = Inr p"
      "LibraryItem_model_validate plain_lib library_doc = Inr i"
      "Ebook_model_validate plain_lib ebook_doc = Inr b"
    using ebook_accepted purchase_accepted library_accepted by blast
  have "purchase_doc(''user_id'' \<mapsto> VStr (str ''u1'')) = purchase_doc"
    "purchase_doc(''ebook_id'' \<mapsto> VStr (str ''e1'')) = purchase_doc"
    "library_doc(''user_id'' \<mapsto> VStr (str ''u1'')) = library_doc"
    "library_doc(''ebook_id'' \<mapsto> VStr (str ''e1'')) = library_doc"
    "ebook_doc(''created_by'' := None) = ebook_doc"
    by (rule ext, simp add: ebook_doc_def purchase_doc_def library_doc_def)+
  then have base:
    "Purchase_model_validate plain_lib (purchase_doc(''user_id'' \<mapsto> VStr (str ''u1''))) = Inr p"
    "Purchase_model_validate plain_lib (purchase_doc(''ebook_id'' \<mapsto> VStr (str ''e1''))) = Inr p"
    "LibraryItem_model_validate plain_lib (library_doc(''user_id'' \<mapsto> VStr (str ''u1''))) = Inr i"
    "LibraryItem_model_validate plain_lib (library_doc(''ebook_id'' \<mapsto> VStr (str ''e1''))) = Inr i"
    "Ebook_model_validate plain_lib (ebook_doc(''created_by'' := None)) = Inr b"
    using r by simp_all
  note t = identifiers_accept_every_string [where L = plain_lib and s = "[]" and v = "VInt 7"]
  note t1 = t [where dp = purchase_doc and di = library_doc and db = ebook_doc
      and p = p and i = i and b = b]
  note t0 = t [where dp = Map.empty and di = Map.empty and db = ebook_doc
      and p = p and i = i and b = b and ?x0.0 = None]
  show ?thesis
    using r base t1 [of "Some (VStr (str ''u1''))"] t1 [of "Some (VStr (str ''e1''))"]
      t1 [of None] t0
    by simp
qed

end
